theory Spec2Isabelle
  imports Complex_Main
begin

section \<open>Python values used by the scripts\<close>

text \<open>
  The scripts are Python 3. Exceptions become values of type \<open>exn\<close>; a computation that
  may raise has type \<open>exn + 'a\<close>, with \<open>Inl\<close> for the exception.
\<close>

datatype exn = KeyError | ValueError | TypeError | AttributeError | IndexError
  | ZeroDivisionError | OverflowError

definition thn :: "exn + 'a \<Rightarrow> ('a \<Rightarrow> exn + 'b) \<Rightarrow> exn + 'b" where
  "thn m f = (case m of Inl e \<Rightarrow> Inl e | Inr x \<Rightarrow> f x)"

subsection \<open>Floats\<close>

text \<open>
  A Python float is an IEEE 754 binary64 value: a finite number, an infinity or NaN.
  The sign of zero is not kept (\<open>-0.0\<close> and \<open>0.0\<close> are both \<open>Fin 0\<close>): the scripts
  only test floats for truth and compare them, which does not see the sign of zero.
\<close>

datatype pyfloat = Fin real | PInf | NInf | NaN

fun isfinite :: "pyfloat \<Rightarrow> bool" where
  "isfinite (Fin q) = True"
| "isfinite PInf = False"
| "isfinite NInf = False"
| "isfinite NaN = False"

fun ilog2 :: "nat \<Rightarrow> nat" where
  "ilog2 n = (if n < 2 then 0 else Suc (ilog2 (n div 2)))"

declare ilog2.simps [simp del]

definition pow2 :: "int \<Rightarrow> real" where
  "pow2 e = (if 0 \<le> e then 2 ^ nat e else 1 / 2 ^ nat (- e))"

text \<open>\<open>binexp a\<close> is the integer \<open>e\<close> with \<open>2^e \<le> a < 2^(e+1)\<close>, for \<open>a > 0\<close>.\<close>

definition binexp :: "real \<Rightarrow> int" where
  "binexp a = (if 1 \<le> a then int (ilog2 (nat \<lfloor>a\<rfloor>))
               else - (int (ilog2 (nat (\<lceil>1 / a\<rceil> - 1))) + 1))"

definition round_half_even :: "real \<Rightarrow> int" where
  "round_half_even x =
     (let f = \<lfloor>x\<rfloor>; r = x - of_int f
      in if r < 1 / 2 then f else if 1 / 2 < r then f + 1
         else if even f then f else f + 1)"

text \<open>
  Rounding of an exact result to binary64, to nearest with ties to even: 53 bits of
  precision, least exponent -1022 (below it the spacing stays \<open>2^-1074\<close>), and a result
  that rounds to \<open>2^1024\<close> or more is an infinity.
\<close>

definition b64_round :: "real \<Rightarrow> pyfloat" where
  "b64_round q =
     (if q = 0 then Fin 0
      else let a = \<bar>q\<bar>;
               ulp = pow2 (max (binexp a) (- 1022) - 52);
               v = of_int (round_half_even (a / ulp)) * ulp
           in if pow2 1024 \<le> v then (if 0 < q then PInf else NInf)
              else Fin (if 0 < q then v else - v))"

text \<open>Truth value of a float: \<open>0.0\<close> is false, every other float (NaN too) is true.\<close>

fun nonzero :: "pyfloat \<Rightarrow> bool" where
  "nonzero (Fin q) = (q \<noteq> 0)"
| "nonzero PInf = True"
| "nonzero NInf = True"
| "nonzero NaN = True"

text \<open>\<open>x > 0\<close>.\<close>

fun gt_zero :: "pyfloat \<Rightarrow> bool" where
  "gt_zero (Fin q) = (0 < q)"
| "gt_zero PInf = True"
| "gt_zero NInf = False"
| "gt_zero NaN = False"

text \<open>\<open>x * y\<close> and \<open>x / y\<close> on floats.\<close>

fun py_mul :: "pyfloat \<Rightarrow> pyfloat \<Rightarrow> pyfloat" where
  "py_mul (Fin a) (Fin b) = b64_round (a * b)"
| "py_mul NaN _ = NaN"
| "py_mul _ NaN = NaN"
| "py_mul (Fin a) PInf = (if a = 0 then NaN else if 0 < a then PInf else NInf)"
| "py_mul (Fin a) NInf = (if a = 0 then NaN else if 0 < a then NInf else PInf)"
| "py_mul PInf (Fin b) = (if b = 0 then NaN else if 0 < b then PInf else NInf)"
| "py_mul NInf (Fin b) = (if b = 0 then NaN else if 0 < b then NInf else PInf)"
| "py_mul PInf PInf = PInf"
| "py_mul PInf NInf = NInf"
| "py_mul NInf PInf = NInf"
| "py_mul NInf NInf = PInf"

fun py_truediv :: "pyfloat \<Rightarrow> pyfloat \<Rightarrow> exn + pyfloat" where
  "py_truediv x (Fin b) =
     (if b = 0 then Inl ZeroDivisionError
      else case x of
             Fin a \<Rightarrow> Inr (b64_round (a / b))
           | PInf \<Rightarrow> Inr (if 0 < b then PInf else NInf)
           | NInf \<Rightarrow> Inr (if 0 < b then NInf else PInf)
           | NaN \<Rightarrow> Inr NaN)"
| "py_truediv NaN _ = Inr NaN"
| "py_truediv _ NaN = Inr NaN"
| "py_truediv (Fin a) _ = Inr (Fin 0)"
| "py_truediv _ _ = Inr NaN"

subsection \<open>Parsing numbers: \<open>int(s)\<close> and \<open>float(s)\<close>\<close>

text \<open>
  Strings are ASCII text. Both constructors strip white space at both ends, take an
  optional sign, and accept decimal digits with single underscores between digits.
  \<open>None\<close> stands for the \<open>ValueError\<close> they raise on any other text.
\<close>

definition is_space :: "char \<Rightarrow> bool" where
  "is_space c = ((of_char c :: nat) \<in> {9, 10, 11, 12, 13, 28, 29, 30, 31, 32})"

definition is_digit :: "char \<Rightarrow> bool" where
  "is_digit c = (48 \<le> (of_char c :: nat) \<and> (of_char c :: nat) \<le> 57)"

definition lower :: "char \<Rightarrow> char" where
  "lower c =
     (case map_of (zip ''ABCDEFGHIJKLMNOPQRSTUVWXYZ'' ''abcdefghijklmnopqrstuvwxyz'') c of
        None \<Rightarrow> c
      | Some l \<Rightarrow> l)"

definition strip :: "string \<Rightarrow> string" where
  "strip s = rev (dropWhile is_space (rev (dropWhile is_space s)))"

text \<open>The digits of \<open>digit (["_"] digit)*\<close>, after the first digit.\<close>

fun digitrest :: "string \<Rightarrow> string option" where
  "digitrest [] = Some []"
| "digitrest (c # cs) =
     (if is_digit c then map_option (Cons c) (digitrest cs)
      else if c = CHR ''_'' then
        (case cs of
           [] \<Rightarrow> None
         | d # ds \<Rightarrow> if is_digit d then map_option (Cons d) (digitrest ds) else None)
      else None)"

definition digitpart :: "string \<Rightarrow> string option" where
  "digitpart s =
     (case s of [] \<Rightarrow> None
      | c # cs \<Rightarrow> if is_digit c then map_option (Cons c) (digitrest cs) else None)"

definition digits_val :: "string \<Rightarrow> nat" where
  "digits_val ds = foldl (\<lambda>n c. 10 * n + ((of_char c :: nat) - 48)) 0 ds"

definition unsigned_int :: "string \<Rightarrow> int option" where
  "unsigned_int s = map_option (\<lambda>ds. int (digits_val ds)) (digitpart s)"

definition signed_int :: "string \<Rightarrow> int option" where
  "signed_int s =
     (case s of
        [] \<Rightarrow> None
      | c # cs \<Rightarrow>
          if c = CHR ''-'' then map_option uminus (unsigned_int cs)
          else if c = CHR ''+'' then unsigned_int cs
          else unsigned_int s)"

definition py_int :: "string \<Rightarrow> int option" where
  "py_int s = signed_int (strip s)"

definition pow10 :: "int \<Rightarrow> real" where
  "pow10 e = (if 0 \<le> e then 10 ^ nat e else 1 / 10 ^ nat (- e))"

text \<open>The digits of the mantissa \<open>[digitpart] "." digitpart | digitpart ["."]\<close>: those
  before and those after the point.\<close>

definition mantissa :: "string \<Rightarrow> (string \<times> string) option" where
  "mantissa s =
     (let ip = takeWhile (\<lambda>c. c \<noteq> CHR ''.'') s;
          rest = dropWhile (\<lambda>c. c \<noteq> CHR ''.'') s
      in if rest = [] then map_option (\<lambda>ds. (ds, [])) (digitpart ip)
         else let fp = tl rest
              in if ip = [] \<and> fp = [] then None
                 else case (if ip = [] then Some [] else digitpart ip) of
                        None \<Rightarrow> None
                      | Some di \<Rightarrow>
                          (case (if fp = [] then Some [] else digitpart fp) of
                             None \<Rightarrow> None
                           | Some df \<Rightarrow> Some (di, df)))"

definition is_e :: "char \<Rightarrow> bool" where
  "is_e c = (c = CHR ''e'' \<or> c = CHR ''E'')"

definition decimal :: "string \<Rightarrow> real option" where
  "decimal s =
     (let m = takeWhile (\<lambda>c. \<not> is_e c) s;
          rest = dropWhile (\<lambda>c. \<not> is_e c) s
      in case mantissa m of
           None \<Rightarrow> None
         | Some (di, df) \<Rightarrow>
             (case (if rest = [] then Some 0 else signed_int (tl rest)) of
                None \<Rightarrow> None
              | Some ex \<Rightarrow>
                  Some (of_nat (digits_val (di @ df)) * pow10 (ex - int (length df)))))"

definition unsigned_float :: "string \<Rightarrow> pyfloat option" where
  "unsigned_float s =
     (let l = map lower s
      in if l = ''inf'' \<or> l = ''infinity'' then Some PInf
         else if l = ''nan'' then Some NaN
         else map_option b64_round (decimal s))"

fun fneg :: "pyfloat \<Rightarrow> pyfloat" where
  "fneg (Fin q) = Fin (- q)"
| "fneg PInf = NInf"
| "fneg NInf = PInf"
| "fneg NaN = NaN"

definition py_float :: "string \<Rightarrow> pyfloat option" where
  "py_float s =
     (case strip s of
        [] \<Rightarrow> None
      | c # cs \<Rightarrow>
          if c = CHR ''-'' then map_option fneg (unsigned_float cs)
          else if c = CHR ''+'' then unsigned_float cs
          else unsigned_float (c # cs))"


section \<open>MetricsAggregator (scripts/preprocess_metrics.py)\<close>

subsection \<open>Rows and keys\<close>

text \<open>
  \<open>read_csv\<close> returns the rows of \<open>csv.DictReader\<close>: dictionaries from column names to
  cells. A cell is a string, or \<open>None\<close> where the line had fewer fields than the header.
  The script's input is taken as the three lists of rows.
\<close>

type_synonym cell = "string option"

type_synonym row = "(string \<times> cell) list"

definition getitem :: "row \<Rightarrow> string \<Rightarrow> exn + cell" where
  "getitem row k = (case map_of row k of None \<Rightarrow> Inl KeyError | Some v \<Rightarrow> Inr v)"

type_synonym key = "cell \<times> cell \<times> cell \<times> cell"

definition to_key :: "row \<Rightarrow> exn + key" where
  "to_key row =
     thn (getitem row ''Month'') (\<lambda>m.
     thn (getitem row ''AssetType'') (\<lambda>a.
     thn (getitem row ''BHK'') (\<lambda>b.
     thn (getitem row ''LocalityID'') (\<lambda>l.
     Inr (m, a, b, l)))))"

text \<open>\<open>f2\<close>: the bare \<open>except\<close> turns every exception of \<open>float(x)\<close> into \<open>None\<close>.\<close>

definition f2 :: "cell \<Rightarrow> pyfloat option" where
  "f2 x =
     (case x of
        None \<Rightarrow> None
      | Some s \<Rightarrow>
          (case py_float s of
             None \<Rightarrow> None
           | Some v \<Rightarrow> if isfinite v then Some v else None))"

text \<open>The dictionary \<open>{to_key(r): r for r in rows}\<close>: a later row replaces an earlier
  one with the same key.\<close>

fun index_rows :: "row list \<Rightarrow> (key \<rightharpoonup> row) \<Rightarrow> exn + (key \<rightharpoonup> row)" where
  "index_rows [] m = Inr m"
| "index_rows (r # rs) m = thn (to_key r) (\<lambda>k. index_rows rs (m(k \<mapsto> r)))"

text \<open>\<open>int(x)\<close> for a cell.\<close>

definition int_of_cell :: "cell \<Rightarrow> exn + int" where
  "int_of_cell x =
     (case x of
        None \<Rightarrow> Inl TypeError
      | Some s \<Rightarrow> (case py_int s of None \<Rightarrow> Inl ValueError | Some i \<Rightarrow> Inr i))"

text \<open>\<open>int(a["SampleSize"]) if a and a.get("SampleSize") else 0\<close>\<close>

definition sample_size :: "row option \<Rightarrow> exn + int" where
  "sample_size a =
     (case a of
        None \<Rightarrow> Inr 0
      | Some row \<Rightarrow>
          if row = [] then Inr 0
          else (case map_of row ''SampleSize'' of
                  None \<Rightarrow> Inr 0
                | Some None \<Rightarrow> Inr 0
                | Some (Some s) \<Rightarrow>
                    if s = [] then Inr 0
                    else thn (getitem row ''SampleSize'') int_of_cell))"

text \<open>\<open>f2(a[col]) if a else None\<close>\<close>

definition metric_value :: "row option \<Rightarrow> string \<Rightarrow> exn + pyfloat option" where
  "metric_value a col =
     (case a of
        None \<Rightarrow> Inr None
      | Some row \<Rightarrow>
          if row = [] then Inr None
          else thn (getitem row col) (\<lambda>x. Inr (f2 x)))"

subsection \<open>Outputs\<close>

record point =
  pid :: int
  pvalue :: pyfloat

type_synonym pkey = "string \<times> cell \<times> cell \<times> cell"

type_synonym paints = "(pkey \<times> point list) list"

record summary =
  s_month :: cell
  s_asset :: cell
  s_bhk :: cell
  locality_id :: int
  median_asking :: "pyfloat option"
  median_registered :: "pyfloat option"
  median_rent :: "pyfloat option"
  yield :: "pyfloat option"
  count_asking :: int
  count_registered :: int
  count_rent :: int

text \<open>
  \<open>paints\<close> is a \<open>defaultdict(list)\<close>, in insertion order. The files written are kept
  as a log of (path components under the output directory, content).
\<close>

record out =
  paints :: paints
  summaries :: "(string list \<times> summary) list"

fun append_paint :: "pkey \<Rightarrow> point \<Rightarrow> paints \<Rightarrow> paints" where
  "append_paint k p [] = [(k, [p])]"
| "append_paint k p ((k', ps) # rest) =
     (if k' = k then (k', ps @ [p]) # rest else (k', ps) # append_paint k p rest)"

definition paint_array :: "paints \<Rightarrow> pkey \<Rightarrow> point list" where
  "paint_array ps k = (case map_of ps k of None \<Rightarrow> [] | Some l \<Rightarrow> l)"

text \<open>\<open>paints[(metric, month, asset, bhk)].append({"id": int(loc_id), "value": v})\<close>\<close>

definition add_point :: "string \<Rightarrow> key \<Rightarrow> pyfloat \<Rightarrow> paints \<Rightarrow> exn + paints" where
  "add_point metric k v ps =
     (case k of (month, asset, bhk, loc_id) \<Rightarrow>
        thn (int_of_cell loc_id) (\<lambda>i.
        Inr (append_paint (metric, month, asset, bhk) \<lparr>pid = i, pvalue = v\<rparr> ps)))"

text \<open>\<open>v and n >= min_sample\<close>, for a value that may be \<open>None\<close>.\<close>

definition paint_guard :: "pyfloat option \<Rightarrow> int \<Rightarrow> int \<Rightarrow> bool" where
  "paint_guard v n min_sample =
     (case v of None \<Rightarrow> False | Some x \<Rightarrow> nonzero x \<and> min_sample \<le> n)"

text \<open>\<open>vR and vR > 0 and vN\<close>\<close>

definition yield_guard :: "pyfloat option \<Rightarrow> pyfloat option \<Rightarrow> bool" where
  "yield_guard vR vN =
     (case vR of
        None \<Rightarrow> False
      | Some x \<Rightarrow>
          nonzero x \<and> gt_zero x \<and> (case vN of None \<Rightarrow> False | Some z \<Rightarrow> nonzero z))"

text \<open>\<open>12.0 * vN / vR\<close>; an operand \<open>None\<close> is a \<open>TypeError\<close>.\<close>

definition yield_expr :: "pyfloat option \<Rightarrow> pyfloat option \<Rightarrow> exn + pyfloat" where
  "yield_expr vN vR =
     (case vN of
        None \<Rightarrow> Inl TypeError
      | Some z \<Rightarrow>
          (case vR of
             None \<Rightarrow> Inl TypeError
           | Some x \<Rightarrow> py_truediv (py_mul (Fin 12) z) x))"

definition pystr :: "cell \<Rightarrow> string" where
  "pystr c = (case c of None \<Rightarrow> ''None'' | Some s \<Rightarrow> s)"

text \<open>\<open>out_root / "summary" / str(loc_id) / month / asset / f"{bhk}.json"\<close>: joining a
  path with \<open>None\<close> is a \<open>TypeError\<close>.\<close>

definition summary_path :: "key \<Rightarrow> exn + string list" where
  "summary_path k =
     (case k of (month, asset, bhk, loc_id) \<Rightarrow>
        (case month of
           None \<Rightarrow> Inl TypeError
         | Some m \<Rightarrow>
             (case asset of
                None \<Rightarrow> Inl TypeError
              | Some a \<Rightarrow> Inr [''summary'', pystr loc_id, m, a, pystr bhk @ ''.json''])))"

definition paint_path :: "pkey \<Rightarrow> exn + string list" where
  "paint_path k =
     (case k of (metric, month, asset, bhk) \<Rightarrow>
        (case month of
           None \<Rightarrow> Inl TypeError
         | Some m \<Rightarrow>
             (case asset of
                None \<Rightarrow> Inl TypeError
              | Some a \<Rightarrow> Inr [''choropleth'', metric, m, a, pystr bhk @ ''.json''])))"

subsection \<open>The loop over the keys\<close>

text \<open>The six values that the loop body reads for a key, named as in the source.\<close>

record metrics =
  nA :: int
  nR :: int
  nN :: int
  vA :: "pyfloat option"
  vR :: "pyfloat option"
  vN :: "pyfloat option"

definition read_metrics ::
  "(key \<rightharpoonup> row) \<Rightarrow> (key \<rightharpoonup> row) \<Rightarrow> (key \<rightharpoonup> row) \<Rightarrow> key \<Rightarrow> exn + metrics" where
  "read_metrics A R N k =
     thn (sample_size (A k)) (\<lambda>ca.
     thn (sample_size (R k)) (\<lambda>cr.
     thn (sample_size (N k)) (\<lambda>cn.
     thn (metric_value (A k) ''MedianAskingPrice'') (\<lambda>xa.
     thn (metric_value (R k) ''MedianRegisteredPrice'') (\<lambda>xr.
     thn (metric_value (N k) ''MedianMonthlyRent'') (\<lambda>xn.
     Inr \<lparr>nA = ca, nR = cr, nN = cn, vA = xa, vR = xr, vN = xn\<rparr>))))))"

text \<open>The four \<open>if\<close> statements of the loop body that append to \<open>paints\<close>.\<close>

definition emit_paints :: "int \<Rightarrow> key \<Rightarrow> metrics \<Rightarrow> paints \<Rightarrow> exn + paints" where
  "emit_paints min_sample k m ps =
     thn (if yield_guard (vR m) (vN m) \<and> min_sample \<le> nR m \<and> min_sample \<le> nN m
          then thn (yield_expr (vN m) (vR m)) (\<lambda>y. add_point ''yield'' k y ps)
          else Inr ps) (\<lambda>p1.
     thn (case vA m of
            None \<Rightarrow> Inr p1
          | Some x \<Rightarrow> if paint_guard (vA m) (nA m) min_sample
                      then add_point ''asking'' k x p1 else Inr p1) (\<lambda>p2.
     thn (case vR m of
            None \<Rightarrow> Inr p2
          | Some x \<Rightarrow> if paint_guard (vR m) (nR m) min_sample
                      then add_point ''registered'' k x p2 else Inr p2) (\<lambda>p3.
     (case vN m of
        None \<Rightarrow> Inr p3
      | Some x \<Rightarrow> if paint_guard (vN m) (nN m) min_sample
                  then add_point ''rent'' k x p3 else Inr p3))))"

text \<open>The dictionary \<open>summary\<close> of the loop body.\<close>

definition make_summary :: "key \<Rightarrow> metrics \<Rightarrow> exn + summary" where
  "make_summary k m =
     (case k of (month, asset, bhk, loc_id) \<Rightarrow>
        thn (int_of_cell loc_id) (\<lambda>i.
        thn (if yield_guard (vR m) (vN m)
             then thn (yield_expr (vN m) (vR m)) (\<lambda>y. Inr (Some y))
             else Inr None) (\<lambda>y.
        Inr \<lparr>s_month = month, s_asset = asset, s_bhk = bhk, locality_id = i,
             median_asking = vA m, median_registered = vR m, median_rent = vN m,
             yield = y,
             count_asking = nA m, count_registered = nR m, count_rent = nN m\<rparr>)))"

text \<open>One pass of the loop body, for the key \<open>k\<close>.\<close>

definition process_key ::
  "int \<Rightarrow> (key \<rightharpoonup> row) \<Rightarrow> (key \<rightharpoonup> row) \<Rightarrow> (key \<rightharpoonup> row) \<Rightarrow> key \<Rightarrow> out \<Rightarrow> exn + out" where
  "process_key min_sample A R N k st =
     thn (read_metrics A R N k) (\<lambda>m.
     thn (emit_paints min_sample k m (paints st)) (\<lambda>ps.
     thn (make_summary k m) (\<lambda>s.
     thn (summary_path k) (\<lambda>path.
     Inr \<lparr>paints = ps, summaries = summaries st @ [(path, s)]\<rparr>))))"

fun process_keys ::
  "int \<Rightarrow> (key \<rightharpoonup> row) \<Rightarrow> (key \<rightharpoonup> row) \<Rightarrow> (key \<rightharpoonup> row) \<Rightarrow> key list \<Rightarrow> out \<Rightarrow> exn + out" where
  "process_keys min_sample A R N [] st = Inr st"
| "process_keys min_sample A R N (k # ks) st =
     thn (process_key min_sample A R N k st) (process_keys min_sample A R N ks)"

text \<open>The final loop, which writes one file for each entry of \<open>paints\<close>.\<close>

fun write_paints :: "paints \<Rightarrow> exn + (string list \<times> point list) list" where
  "write_paints [] = Inr []"
| "write_paints ((k, arr) # rest) =
     thn (paint_path k) (\<lambda>path.
     thn (write_paints rest) (\<lambda>fs. Inr ((path, arr) # fs)))"

record files =
  choropleth_files :: "(string list \<times> point list) list"
  summary_files :: "(string list \<times> summary) list"

text \<open>
  \<open>keys\<close> is a Python set, whose iteration order is not fixed: \<open>main\<close> takes the order
  \<open>ks\<close> in which the loop visits the keys, and \<open>iteration_order\<close> says that \<open>ks\<close> lists
  each key of the three dictionaries once.
\<close>

definition iteration_order ::
  "(key \<rightharpoonup> row) \<Rightarrow> (key \<rightharpoonup> row) \<Rightarrow> (key \<rightharpoonup> row) \<Rightarrow> key list \<Rightarrow> bool" where
  "iteration_order A R N ks = (distinct ks \<and> set ks = dom A \<union> dom R \<union> dom N)"

definition main :: "int \<Rightarrow> row list \<Rightarrow> row list \<Rightarrow> row list \<Rightarrow> key list \<Rightarrow> exn + files" where
  "main min_sample ask reg rent ks =
     thn (index_rows ask Map.empty) (\<lambda>A.
     thn (index_rows reg Map.empty) (\<lambda>R.
     thn (index_rows rent Map.empty) (\<lambda>N.
     thn (process_keys min_sample A R N ks \<lparr>paints = [], summaries = []\<rparr>) (\<lambda>st.
     thn (write_paints (paints st)) (\<lambda>fs.
     Inr \<lparr>choropleth_files = fs, summary_files = summaries st\<rparr>)))))"

subsection \<open>Sample inputs\<close>

text \<open>A row with the canonical header of the metric files, for locality 101.\<close>

definition ex_row :: "string \<Rightarrow> string \<Rightarrow> string \<Rightarrow> string \<Rightarrow> row" where
  "ex_row value_col psf_col v n =
     [(''Month'', Some ''2025-07''), (''CityID'', Some ''13''), (''MicroMarketID'', Some ''7''),
      (''LocalityID'', Some ''101''), (''BHK'', Some ''2''), (''AssetType'', Some ''Residential''),
      (value_col, Some v), (psf_col, Some ''100''), (''SampleSize'', Some n),
      (''FreshnessDate'', Some ''2025-07-31'')]"

definition ex_asking :: "string \<Rightarrow> string \<Rightarrow> row" where
  "ex_asking v n = ex_row ''MedianAskingPrice'' ''MedianPricePSF'' v n"

definition ex_registered :: "string \<Rightarrow> string \<Rightarrow> row" where
  "ex_registered v n = ex_row ''MedianRegisteredPrice'' ''MedianPricePSF'' v n"

definition ex_rent :: "string \<Rightarrow> string \<Rightarrow> row" where
  "ex_rent v n = ex_row ''MedianMonthlyRent'' ''MedianRentPSF'' v n"

definition ex_key :: key where
  "ex_key = (Some ''2025-07'', Some ''Residential'', Some ''2'', Some ''101'')"

definition ex_out :: out where
  "ex_out = \<lparr>paints = [], summaries = []\<rparr>"

text \<open>The dictionary that holds the one row \<open>r\<close> under the sample key.\<close>

definition ex_map :: "row \<Rightarrow> (key \<rightharpoonup> row)" where
  "ex_map r = [ex_key \<mapsto> r]"

section \<open>GeoValidator (scripts/geo_validator.py)\<close>

subsection \<open>Parsed GeoJSON\<close>

text \<open>
  \<open>json.load\<close> gives Python values. Property values are kept as JSON values; integers
  and floats are distinct, as in Python.
\<close>

datatype json = JNull | JBool bool | JInt int | JFloat pyfloat | JStr string
  | JArr "json list" | JObj "(string \<times> json) list"

text \<open>A coordinate is a JSON number: a Python \<open>int\<close> or \<open>float\<close>.\<close>

datatype num = NInt int | NFlt pyfloat

type_synonym position = "num list"

text \<open>
  The geometry of a feature is taken in the shape that GeoJSON gives it: a type and
  coordinates that are numbers, nested as the type prescribes. \<open>OtherGeom\<close> is a
  geometry object with any other type, or with none.
\<close>

datatype geometry = Point position | LineString "position list"
  | MultiLineString "position list list" | Polygon "position list list"
  | MultiPolygon "position list list list" | OtherGeom

text \<open>The member \<open>"geometry"\<close> of a feature: absent, \<open>null\<close>, or a geometry object.\<close>

datatype geomfield = GAbsent | GNull | Geom geometry

text \<open>The member \<open>"properties"\<close> of a feature: absent, \<open>null\<close>, or an object.\<close>

datatype propfield = PAbsent | PNull | PObj "(string \<times> json) list"

record feature =
  properties :: propfield
  geometry :: geomfield

text \<open>
  The content of a file: text that is not JSON, a JSON value that is not an object, or
  an object with the value of its member \<open>"type"\<close> (when that is a string) and its
  member \<open>"features"\<close> (when it has one).
\<close>

datatype doc = NotJson | NotObject | Doc "string option" "feature list option"

definition load_fc :: "doc \<Rightarrow> exn + feature list" where
  "load_fc d =
     (case d of
        NotJson \<Rightarrow> Inl ValueError
      | NotObject \<Rightarrow> Inl AttributeError
      | Doc t fs \<Rightarrow>
          if t \<noteq> Some ''FeatureCollection'' then Inl ValueError
          else (case fs of None \<Rightarrow> Inl KeyError | Some feats \<Rightarrow> Inr feats))"

subsection \<open>Numbers\<close>

text \<open>The value of a number as a float or exact integer; comparisons are by value, and
  every comparison with NaN is false.\<close>

fun num_val :: "num \<Rightarrow> pyfloat" where
  "num_val (NInt i) = Fin (of_int i)"
| "num_val (NFlt f) = f"

fun float_lt :: "pyfloat \<Rightarrow> pyfloat \<Rightarrow> bool" where
  "float_lt NaN _ = False"
| "float_lt _ NaN = False"
| "float_lt (Fin a) (Fin b) = (a < b)"
| "float_lt (Fin a) PInf = True"
| "float_lt (Fin a) NInf = False"
| "float_lt PInf _ = False"
| "float_lt NInf NInf = False"
| "float_lt NInf _ = True"

fun float_le :: "pyfloat \<Rightarrow> pyfloat \<Rightarrow> bool" where
  "float_le NaN _ = False"
| "float_le _ NaN = False"
| "float_le (Fin a) (Fin b) = (a \<le> b)"
| "float_le (Fin a) PInf = True"
| "float_le (Fin a) NInf = False"
| "float_le PInf PInf = True"
| "float_le PInf _ = False"
| "float_le NInf _ = True"

definition num_lt :: "num \<Rightarrow> num \<Rightarrow> bool" where
  "num_lt a b = float_lt (num_val a) (num_val b)"

definition num_le :: "num \<Rightarrow> num \<Rightarrow> bool" where
  "num_le a b = float_le (num_val a) (num_val b)"

text \<open>\<open>min(xs)\<close> and \<open>max(xs)\<close>: the first element, replaced by each later element that
  is smaller (greater); an empty list is a \<open>ValueError\<close>.\<close>

definition py_min :: "num list \<Rightarrow> exn + num" where
  "py_min xs =
     (case xs of
        [] \<Rightarrow> Inl ValueError
      | x # rest \<Rightarrow> Inr (foldl (\<lambda>cur item. if num_lt item cur then item else cur) x rest))"

definition py_max :: "num list \<Rightarrow> exn + num" where
  "py_max xs =
     (case xs of
        [] \<Rightarrow> Inl ValueError
      | x # rest \<Rightarrow> Inr (foldl (\<lambda>cur item. if num_lt cur item then item else cur) x rest))"

text \<open>\<open>float(i)\<close> for an integer: an \<open>OverflowError\<close> beyond the range of a float.\<close>

definition int_to_float :: "int \<Rightarrow> exn + pyfloat" where
  "int_to_float i =
     (case b64_round (of_int i) of
        Fin q \<Rightarrow> Inr (Fin q)
      | _ \<Rightarrow> Inl OverflowError)"

fun float_add :: "pyfloat \<Rightarrow> pyfloat \<Rightarrow> pyfloat" where
  "float_add (Fin a) (Fin b) = b64_round (a + b)"
| "float_add NaN _ = NaN"
| "float_add _ NaN = NaN"
| "float_add PInf NInf = NaN"
| "float_add NInf PInf = NaN"
| "float_add PInf _ = PInf"
| "float_add NInf _ = NInf"
| "float_add _ PInf = PInf"
| "float_add _ NInf = NInf"

text \<open>\<open>a + b\<close> on numbers.\<close>

fun num_add :: "num \<Rightarrow> num \<Rightarrow> exn + num" where
  "num_add (NInt a) (NInt b) = Inr (NInt (a + b))"
| "num_add (NInt a) (NFlt y) = thn (int_to_float a) (\<lambda>x. Inr (NFlt (float_add x y)))"
| "num_add (NFlt x) (NInt b) = thn (int_to_float b) (\<lambda>y. Inr (NFlt (float_add x y)))"
| "num_add (NFlt x) (NFlt y) = Inr (NFlt (float_add x y))"

text \<open>\<open>a / 2.0\<close>\<close>

fun num_half :: "num \<Rightarrow> exn + num" where
  "num_half (NInt a) =
     thn (int_to_float a) (\<lambda>x. thn (py_truediv x (Fin 2)) (\<lambda>h. Inr (NFlt h)))"
| "num_half (NFlt x) = thn (py_truediv x (Fin 2)) (\<lambda>h. Inr (NFlt h))"

subsection \<open>Bounding boxes\<close>

type_synonym bbox = "num \<times> num \<times> num \<times> num"

text \<open>\<open>xs[i]\<close> for a list.\<close>

definition py_index :: "'a list \<Rightarrow> nat \<Rightarrow> exn + 'a" where
  "py_index xs i = (if i < length xs then Inr (xs ! i) else Inl IndexError)"

text \<open>A list comprehension whose element expression may raise.\<close>

fun map_exn :: "('a \<Rightarrow> exn + 'b) \<Rightarrow> 'a list \<Rightarrow> exn + 'b list" where
  "map_exn f [] = Inr []"
| "map_exn f (x # xs) = thn (f x) (\<lambda>y. thn (map_exn f xs) (\<lambda>ys. Inr (y # ys)))"

text \<open>The branch on the geometry type that selects the positions; \<open>None\<close> is the
  \<open>return None\<close> of the last branch.\<close>

definition coords_of :: "geometry \<Rightarrow> exn + position list option" where
  "coords_of g =
     (case g of
        Polygon rings \<Rightarrow> thn (py_index rings 0) (\<lambda>r. Inr (Some r))
      | MultiPolygon polys \<Rightarrow>
          thn (map_exn (\<lambda>ring. py_index ring 0) polys) (\<lambda>rs. Inr (Some (concat rs)))
      | LineString pts \<Rightarrow> Inr (Some pts)
      | MultiLineString ls \<Rightarrow> Inr (Some (concat ls))
      | Point p \<Rightarrow> Inr (Some [p])
      | OtherGeom \<Rightarrow> Inr None)"

definition bbox_of_coords :: "position list \<Rightarrow> exn + bbox" where
  "bbox_of_coords coords =
     thn (map_exn (\<lambda>c. py_index c 0) coords) (\<lambda>lons.
     thn (map_exn (\<lambda>c. py_index c 1) coords) (\<lambda>lats.
     thn (py_min lons) (\<lambda>w.
     thn (py_min lats) (\<lambda>s.
     thn (py_max lons) (\<lambda>e.
     thn (py_max lats) (\<lambda>n.
     Inr (w, s, e, n)))))))"

text \<open>\<open>bbox_of_geom\<close> on a geometry object, and on the value that \<open>ft.get("geometry", {})\<close> or
  \<open>ft["geometry"]\<close> hands to it: \<open>None.get\<close> is an \<open>AttributeError\<close>.\<close>

definition bbox_of_geom :: "geometry \<Rightarrow> exn + bbox option" where
  "bbox_of_geom g =
     thn (coords_of g) (\<lambda>cs.
       case cs of
         None \<Rightarrow> Inr None
       | Some coords \<Rightarrow> thn (bbox_of_coords coords) (\<lambda>b. Inr (Some b)))"

definition bbox_of_value :: "geometry option \<Rightarrow> exn + bbox option" where
  "bbox_of_value v = (case v of None \<Rightarrow> Inl AttributeError | Some g \<Rightarrow> bbox_of_geom g)"

text \<open>\<open>ft.get("geometry", {})\<close>: the default \<open>{}\<close> is a geometry object without a type.\<close>

definition get_geometry :: "feature \<Rightarrow> geometry option" where
  "get_geometry ft =
     (case geometry ft of GAbsent \<Rightarrow> Some OtherGeom | GNull \<Rightarrow> None | Geom g \<Rightarrow> Some g)"

text \<open>\<open>ft["geometry"]\<close>\<close>

definition item_geometry :: "feature \<Rightarrow> exn + geometry option" where
  "item_geometry ft =
     (case geometry ft of GAbsent \<Rightarrow> Inl KeyError | GNull \<Rightarrow> Inr None | Geom g \<Rightarrow> Inr (Some g))"

definition centroid_of_geom :: "geometry option \<Rightarrow> exn + (num \<times> num) option" where
  "centroid_of_geom v =
     thn (bbox_of_value v) (\<lambda>b.
       case b of
         None \<Rightarrow> Inr None
       | Some (w, s, e, n) \<Rightarrow>
           thn (num_add w e) (\<lambda>we.
           thn (num_half we) (\<lambda>x.
           thn (num_add s n) (\<lambda>sn.
           thn (num_half sn) (\<lambda>y.
           Inr (Some (x, y)))))))"

text \<open>\<open>point_in_bbox\<close>: unpacking a bounding box that is \<open>None\<close> is a \<open>TypeError\<close>.\<close>

definition point_in_bbox :: "num \<times> num \<Rightarrow> bbox option \<Rightarrow> exn + bool" where
  "point_in_bbox pt b =
     (case b of
        None \<Rightarrow> Inl TypeError
      | Some (w, s, e, n) \<Rightarrow>
          (case pt of (x, y) \<Rightarrow>
             Inr ((num_le w x \<and> num_le x e) \<and> (num_le s y \<and> num_le y n))))"

definition in_wgs84 :: "bbox \<Rightarrow> bool" where
  "in_wgs84 b =
     (case b of (w, s, e, n) \<Rightarrow>
        num_le (NInt (- 180)) w \<and> num_le w (NInt 180)
        \<and> num_le (NInt (- 180)) e \<and> num_le e (NInt 180)
        \<and> num_le (NInt (- 90)) s \<and> num_le s (NInt 90)
        \<and> num_le (NInt (- 90)) n \<and> num_le n (NInt 90))"

subsection \<open>Properties and identifiers\<close>

text \<open>\<open>ft.get("properties", {})\<close>\<close>

definition get_properties :: "feature \<Rightarrow> (string \<times> json) list option" where
  "get_properties ft =
     (case properties ft of PAbsent \<Rightarrow> Some [] | PNull \<Rightarrow> None | PObj kv \<Rightarrow> Some kv)"

text \<open>\<open>ft["properties"]\<close>\<close>

definition item_properties :: "feature \<Rightarrow> exn + (string \<times> json) list option" where
  "item_properties ft =
     (case properties ft of
        PAbsent \<Rightarrow> Inl KeyError | PNull \<Rightarrow> Inr None | PObj kv \<Rightarrow> Inr (Some kv))"

text \<open>\<open>[p for p in need if p not in props]\<close>: membership in \<open>None\<close> is a \<open>TypeError\<close>,
  unless \<open>need\<close> is empty.\<close>

definition missing_props :: "string list \<Rightarrow> (string \<times> json) list option \<Rightarrow> exn + string list" where
  "missing_props need props =
     (case props of
        None \<Rightarrow> if need = [] then Inr [] else Inl TypeError
      | Some kv \<Rightarrow> Inr (filter (\<lambda>p. map_of kv p = None) need))"

text \<open>\<open>props[k]\<close> for the value that \<open>ft.get("properties", {})\<close> or \<open>ft["properties"]\<close> gave.\<close>

definition prop_item :: "(string \<times> json) list option \<Rightarrow> string \<Rightarrow> exn + json" where
  "prop_item props k =
     (case props of
        None \<Rightarrow> Inl TypeError
      | Some kv \<Rightarrow> (case map_of kv k of None \<Rightarrow> Inl KeyError | Some v \<Rightarrow> Inr v))"

text \<open>
  Identifiers are looked up in sets and dictionaries, by hash and equality. Lists and
  objects cannot be hashed. Numbers are equal when their values are: \<open>True\<close>, \<open>1\<close> and
  \<open>1.0\<close> are one key, and so are all NaN, which \<open>json\<close> decodes to one shared object.
  \<open>hash_key\<close> gives the representative under which a value is stored.
\<close>

definition hash_key :: "json \<Rightarrow> exn + json" where
  "hash_key v =
     (case v of
        JArr _ \<Rightarrow> Inl TypeError
      | JObj _ \<Rightarrow> Inl TypeError
      | JBool b \<Rightarrow> Inr (JFloat (Fin (if b then 1 else 0)))
      | JInt i \<Rightarrow> Inr (JFloat (Fin (of_int i)))
      | _ \<Rightarrow> Inr v)"

definition ends_with :: "string \<Rightarrow> string \<Rightarrow> bool" where
  "ends_with s suffix = (length suffix \<le> length s \<and> drop (length s - length suffix) s = suffix)"

text \<open>\<open>[p for p in need if p.endswith("ID")][0]\<close>\<close>

definition key_prop_of :: "string list \<Rightarrow> exn + string" where
  "key_prop_of need = py_index (filter (\<lambda>p. ends_with p ''ID'') need) 0"

subsection \<open>The report\<close>

datatype verr =
    MissingFile string
  | MissingProps string nat "string list"
  | DuplicateId string string json
  | UnknownMicroMarket json json

datatype vwarn =
    OutOfRange string nat bbox
  | OutsideCity json
  | OutsideMicroMarket json json

fun is_duplicate :: "verr \<Rightarrow> bool" where
  "is_duplicate (DuplicateId f k v) = True"
| "is_duplicate _ = False"

text \<open>The lists \<open>errors\<close> and \<open>warnings\<close> and, within a layer, the set \<open>ids\<close> (kept as the
  list of its members in the order in which they were added).\<close>

record lstate =
  errors :: "verr list"
  warnings :: "vwarn list"
  ids :: "json list"

subsection \<open>The check of one layer\<close>

text \<open>The body of the loop over the features of a layer, for the feature \<open>ft\<close> with index
  \<open>i\<close>.\<close>

definition check_feature ::
  "string \<Rightarrow> string list \<Rightarrow> string \<Rightarrow> nat \<Rightarrow> feature \<Rightarrow> lstate \<Rightarrow> exn + lstate" where
  "check_feature fname need key_prop i ft st =
     (let props = get_properties ft in
      thn (missing_props need props) (\<lambda>missing.
        if missing \<noteq> [] then
          Inr (st\<lparr>errors := errors st @ [MissingProps fname i missing]\<rparr>)
        else
          thn (prop_item props key_prop) (\<lambda>v.
          thn (hash_key v) (\<lambda>h.
          let st1 = (if h \<in> set (ids st)
                     then st\<lparr>errors := errors st @ [DuplicateId fname key_prop v]\<rparr>
                     else st);
              st2 = st1\<lparr>ids := (if h \<in> set (ids st1) then ids st1 else ids st1 @ [h])\<rparr>
          in thn (bbox_of_value (get_geometry ft)) (\<lambda>b.
               case b of
                 None \<Rightarrow> Inr st2
               | Some bb \<Rightarrow>
                   if \<not> in_wgs84 bb
                   then Inr (st2\<lparr>warnings := warnings st2 @ [OutOfRange fname i bb]\<rparr>)
                   else Inr st2)))))"

fun check_features ::
  "string \<Rightarrow> string list \<Rightarrow> string \<Rightarrow> nat \<Rightarrow> feature list \<Rightarrow> lstate \<Rightarrow> exn + lstate" where
  "check_features fname need key_prop i [] st = Inr st"
| "check_features fname need key_prop i (ft # fts) st =
     thn (check_feature fname need key_prop i ft st)
       (check_features fname need key_prop (Suc i) fts)"

text \<open>
  One pass of the loop over \<open>REQUIRED\<close>. \<open>need\<close> is a Python set of strings, whose
  iteration order is not fixed: \<open>order\<close> gives the order in which a set built from a list
  is iterated. The set \<open>ids\<close> starts empty in each layer.
\<close>

definition check_layer ::
  "(string list \<Rightarrow> string list) \<Rightarrow> string \<Rightarrow> string list \<Rightarrow> feature list
     \<Rightarrow> verr list \<times> vwarn list \<Rightarrow> exn + verr list \<times> vwarn list" where
  "check_layer order fname props feats ew =
     (let need = order props in
      thn (key_prop_of need) (\<lambda>key_prop.
      thn (check_features fname need key_prop 0 feats
             \<lparr>errors = fst ew, warnings = snd ew, ids = []\<rparr>) (\<lambda>st.
      Inr (errors st, warnings st))))"

subsection \<open>The cross-layer checks\<close>

text \<open>The dictionary \<open>mm_bboxes\<close>, from the identifier of each micro-market to its
  bounding box; a later feature replaces an earlier one with the same identifier.\<close>

fun mm_bboxes_of :: "feature list \<Rightarrow> (json \<rightharpoonup> bbox option) \<Rightarrow> exn + (json \<rightharpoonup> bbox option)" where
  "mm_bboxes_of [] m = Inr m"
| "mm_bboxes_of (ft # fts) m =
     thn (item_properties ft) (\<lambda>props.
     thn (prop_item props ''MicroMarketID'') (\<lambda>v.
     thn (item_geometry ft) (\<lambda>g.
     thn (bbox_of_value g) (\<lambda>b.
     thn (hash_key v) (\<lambda>h.
     mm_bboxes_of fts (m(h \<mapsto> b)))))))"

definition check_locality ::
  "bbox option \<Rightarrow> (json \<rightharpoonup> bbox option) \<Rightarrow> feature \<Rightarrow> verr list \<times> vwarn list
     \<Rightarrow> exn + verr list \<times> vwarn list" where
  "check_locality city_bbox mm_bboxes ft ew =
     thn (item_properties ft) (\<lambda>props.
     thn (prop_item props ''LocalityID'') (\<lambda>loc_id.
     thn (prop_item props ''MicroMarketID'') (\<lambda>mm_id.
     thn (hash_key mm_id) (\<lambda>h.
       case mm_bboxes h of
         None \<Rightarrow> Inr (fst ew @ [UnknownMicroMarket loc_id mm_id], snd ew)
       | Some mm_bbox \<Rightarrow>
           thn (item_geometry ft) (\<lambda>g.
           thn (centroid_of_geom g) (\<lambda>c.
             case c of
               None \<Rightarrow> Inr ew
             | Some pt \<Rightarrow>
                 thn (case city_bbox of
                        None \<Rightarrow> Inr (snd ew)
                      | Some cb \<Rightarrow>
                          thn (point_in_bbox pt (Some cb)) (\<lambda>inside.
                            Inr (if \<not> inside then snd ew @ [OutsideCity loc_id] else snd ew)))
                   (\<lambda>w1.
                 thn (point_in_bbox pt mm_bbox) (\<lambda>inside.
                   Inr (fst ew,
                        if \<not> inside then w1 @ [OutsideMicroMarket loc_id mm_id] else w1)))))))))"

fun check_localities ::
  "bbox option \<Rightarrow> (json \<rightharpoonup> bbox option) \<Rightarrow> feature list \<Rightarrow> verr list \<times> vwarn list
     \<Rightarrow> exn + verr list \<times> vwarn list" where
  "check_localities city_bbox mm_bboxes [] ew = Inr ew"
| "check_localities city_bbox mm_bboxes (ft # fts) ew =
     thn (check_locality city_bbox mm_bboxes ft ew) (check_localities city_bbox mm_bboxes fts)"

subsection \<open>The run\<close>

text \<open>
  How a run ends: \<open>Fatal\<close> is \<open>sys.exit(1)\<close> after the list of missing files, \<open>Crash\<close> an
  exception that nothing catches (the interpreter prints the traceback and exits with
  code 1), \<open>Report\<close> the end of \<open>main\<close> after the report of errors and warnings has been
  printed (exit code 0).
\<close>

datatype outcome = Fatal "verr list" | Crash exn | Report "verr list" "vwarn list"

fun exit_code :: "outcome \<Rightarrow> nat" where
  "exit_code (Fatal es) = 1"
| "exit_code (Crash e) = 1"
| "exit_code (Report es ws) = 0"

definition REQUIRED :: "(string \<times> string list) list" where
  "REQUIRED =
     [(''mumbai_city.geojson'', [''CityID'', ''CityName'']),
      (''mumbai_micro_markets.geojson'', [''MicroMarketID'', ''CityID'', ''MicroMarketName'']),
      (''mumbai_localities.geojson'',
       [''LocalityID'', ''MicroMarketID'', ''CityID'', ''LocalityName''])]"

text \<open>The first loop: a missing file is recorded, a file that is there is loaded.\<close>

fun load_layers ::
  "(string \<rightharpoonup> doc) \<Rightarrow> string list \<Rightarrow> verr list \<times> (string \<rightharpoonup> feature list)
     \<Rightarrow> exn + verr list \<times> (string \<rightharpoonup> feature list)" where
  "load_layers dir [] el = Inr el"
| "load_layers dir (fname # rest) el =
     (case dir fname of
        None \<Rightarrow> load_layers dir rest (fst el @ [MissingFile fname], snd el)
      | Some d \<Rightarrow>
          thn (load_fc d) (\<lambda>feats.
          load_layers dir rest (fst el, (snd el)(fname \<mapsto> feats))))"

text \<open>The second loop, over the items of \<open>REQUIRED\<close>.\<close>

fun check_layers ::
  "(string list \<Rightarrow> string list) \<Rightarrow> (string \<rightharpoonup> feature list) \<Rightarrow> (string \<times> string list) list
     \<Rightarrow> verr list \<times> vwarn list \<Rightarrow> exn + verr list \<times> vwarn list" where
  "check_layers order layers [] ew = Inr ew"
| "check_layers order layers ((fname, props) # rest) ew =
     (case layers fname of
        None \<Rightarrow> Inl KeyError
      | Some feats \<Rightarrow>
          thn (check_layer order fname props feats ew) (check_layers order layers rest))"

text \<open>\<open>layers[fname]\<close>\<close>

definition layer_item :: "(string \<rightharpoonup> feature list) \<Rightarrow> string \<Rightarrow> exn + feature list" where
  "layer_item layers fname = (case layers fname of None \<Rightarrow> Inl KeyError | Some fs \<Rightarrow> Inr fs)"

text \<open>Everything after the exit on missing files.\<close>

definition validate ::
  "(string list \<Rightarrow> string list) \<Rightarrow> (string \<rightharpoonup> feature list) \<Rightarrow> exn + verr list \<times> vwarn list" where
  "validate order layers =
     thn (check_layers order layers REQUIRED ([], [])) (\<lambda>ew.
     thn (layer_item layers ''mumbai_city.geojson'') (\<lambda>city_feats.
     thn (case city_feats of
            [] \<Rightarrow> Inr None
          | ft # _ \<Rightarrow> thn (item_geometry ft) bbox_of_value) (\<lambda>city_bbox.
     thn (layer_item layers ''mumbai_micro_markets.geojson'') (\<lambda>mms.
     thn (mm_bboxes_of mms Map.empty) (\<lambda>mm_bboxes.
     thn (layer_item layers ''mumbai_localities.geojson'') (\<lambda>locs.
     check_localities city_bbox mm_bboxes locs ew))))))"

definition main_geo :: "(string list \<Rightarrow> string list) \<Rightarrow> (string \<rightharpoonup> doc) \<Rightarrow> outcome" where
  "main_geo order dir =
     (case load_layers dir (map fst REQUIRED) ([], Map.empty) of
        Inl e \<Rightarrow> Crash e
      | Inr (errs, layers) \<Rightarrow>
          if errs \<noteq> [] then Fatal errs
          else (case validate order layers of
                  Inl e \<Rightarrow> Crash e
                | Inr (es, ws) \<Rightarrow> Report es ws))"

subsection \<open>Sample layers\<close>

definition ex_feature :: "(string \<times> json) list \<Rightarrow> feature" where
  "ex_feature kv = \<lparr>properties = PObj kv, geometry = Geom (Point [NInt 72, NInt 19])\<rparr>"

definition ex_city :: feature where
  "ex_city = ex_feature [(''CityID'', JInt 13), (''CityName'', JStr ''Mumbai'')]"

definition ex_mm :: "int \<Rightarrow> feature" where
  "ex_mm i =
     ex_feature [(''MicroMarketID'', JInt i), (''CityID'', JInt 13),
                 (''MicroMarketName'', JStr ''Andheri'')]"

text \<open>A micro-market without its \<open>MicroMarketID\<close>.\<close>

definition ex_mm_no_id :: feature where
  "ex_mm_no_id = ex_feature [(''CityID'', JInt 13), (''MicroMarketName'', JStr ''Andheri'')]"

text \<open>A micro-market with its \<open>MicroMarketID\<close>, without its \<open>CityID\<close>.\<close>

definition ex_mm_no_city :: "int \<Rightarrow> feature" where
  "ex_mm_no_city i =
     ex_feature [(''MicroMarketID'', JInt i), (''MicroMarketName'', JStr ''Andheri'')]"

definition ex_loc :: "int \<Rightarrow> int \<Rightarrow> feature" where
  "ex_loc l m =
     ex_feature [(''LocalityID'', JInt l), (''MicroMarketID'', JInt m), (''CityID'', JInt 13),
                 (''LocalityName'', JStr ''Versova'')]"

definition ex_dir :: "feature list \<Rightarrow> feature list \<Rightarrow> feature list \<Rightarrow> (string \<rightharpoonup> doc)" where
  "ex_dir city mms locs =
     [''mumbai_city.geojson'' \<mapsto> Doc (Some ''FeatureCollection'') (Some city),
      ''mumbai_micro_markets.geojson'' \<mapsto> Doc (Some ''FeatureCollection'') (Some mms),
      ''mumbai_localities.geojson'' \<mapsto> Doc (Some ''FeatureCollection'') (Some locs)]"

text \<open>The order in which the required properties are listed.\<close>

definition listed_order :: "string list \<Rightarrow> string list" where
  "listed_order ps = ps"

section \<open>DimensionBuilder (scripts/make_dims.py)\<close>

subsection \<open>Reading a master file\<close>

text \<open>
  A file is a string of bytes. \<open>read_csv_any\<close> hands the bytes to three library calls:
  \<open>bytes.decode\<close> in a given encoding, \<open>csv.Sniffer().sniff\<close> on the first two lines of
  the text, and \<open>csv.DictReader\<close> with the dialect found. They are parameters of the
  model; \<open>None\<close> stands for an exception raised by the call (for \<open>sniff\<close> also the
  \<open>IndexError\<close> of a text with fewer than two lines). \<open>excel\<close> is the dialect
  \<open>csv.excel\<close>, whose delimiter is the comma.
\<close>

record 'd csv_lib =
  decode :: "string \<Rightarrow> string \<Rightarrow> string option"
  sniff :: "string \<Rightarrow> 'd option"
  excel :: 'd
  dict_reader :: "'d \<Rightarrow> string \<Rightarrow> row list option"

definition ENCODINGS :: "string list" where
  "ENCODINGS = [''utf-8'', ''utf-8-sig'', ''cp1252'', ''latin-1'']"

text \<open>\<open>raw.replace(b"\xa0", b" ")\<close>\<close>

definition replace_nbsp :: "string \<Rightarrow> string" where
  "replace_nbsp raw = map (\<lambda>b. if (of_char b :: nat) = 160 then CHR '' '' else b) raw"

text \<open>The body of the \<open>try\<close> in the loop over the encodings, on the bytes of the file.\<close>

definition attempt :: "'d csv_lib \<Rightarrow> string \<Rightarrow> string \<Rightarrow> row list option" where
  "attempt lib raw0 enc =
     (let raw = replace_nbsp raw0 in
      case decode lib enc raw of
        None \<Rightarrow> None
      | Some text \<Rightarrow>
          let dialect = (case sniff lib text of None \<Rightarrow> excel lib | Some d \<Rightarrow> d)
          in dict_reader lib dialect text)"

fun try_encodings :: "'d csv_lib \<Rightarrow> string \<Rightarrow> string list \<Rightarrow> row list option" where
  "try_encodings lib raw0 [] = None"
| "try_encodings lib raw0 (enc # rest) =
     (case attempt lib raw0 enc of
        Some rows \<Rightarrow> Some rows
      | None \<Rightarrow> try_encodings lib raw0 rest)"

text \<open>
  \<open>read_csv_any\<close> on the content of the file at the path, \<open>None\<close> when \<open>open\<close> fails.
  Then every pass of the loop fails, \<open>raw\<close> is unbound in the last resort, and the
  function returns \<open>[]\<close>. Decoding as \<open>latin-1\<close> maps each byte to the character with
  its code.
\<close>

definition read_csv_any :: "'d csv_lib \<Rightarrow> string option \<Rightarrow> row list" where
  "read_csv_any lib content =
     (case content of
        None \<Rightarrow> []
      | Some raw0 \<Rightarrow>
          (case try_encodings lib raw0 ENCODINGS of
             Some rows \<Rightarrow> rows
           | None \<Rightarrow>
               (case dict_reader lib (excel lib) (replace_nbsp raw0) of
                  Some rows \<Rightarrow> rows
                | None \<Rightarrow> [])))"

subsection \<open>Fields of a row\<close>

text \<open>
  The casts that \<open>get_first\<close> is called with, applied to a cell; \<open>Inl\<close> is the exception
  that makes \<open>get_first\<close> go on to the next key. Without a cast the cell itself is the
  value.
\<close>

definition no_cast :: "cell \<Rightarrow> exn + string option" where
  "no_cast c = Inr c"

definition str_cast :: "cell \<Rightarrow> exn + string option" where
  "str_cast c = Inr (Some (pystr c))"

definition int_cast :: "cell \<Rightarrow> exn + int option" where
  "int_cast c =
     (case c of
        None \<Rightarrow> Inl TypeError
      | Some s \<Rightarrow> (case py_int s of None \<Rightarrow> Inl ValueError | Some i \<Rightarrow> Inr (Some i)))"

definition float_cast :: "cell \<Rightarrow> exn + pyfloat option" where
  "float_cast c =
     (case c of
        None \<Rightarrow> Inl TypeError
      | Some s \<Rightarrow> (case py_float s of None \<Rightarrow> Inl ValueError | Some f \<Rightarrow> Inr (Some f)))"

text \<open>\<open>get_first(d, keys, default, cast)\<close>; the result \<open>None\<close> is Python's \<open>None\<close>.\<close>

fun get_first :: "row \<Rightarrow> string list \<Rightarrow> 'a option \<Rightarrow> (cell \<Rightarrow> exn + 'a option) \<Rightarrow> 'a option" where
  "get_first d [] dflt cast = dflt"
| "get_first d (k # ks) dflt cast =
     (case map_of d k of
        None \<Rightarrow> get_first d ks dflt cast
      | Some c \<Rightarrow>
          if strip (pystr c) \<noteq> [] then
            (case cast c of
               Inl e \<Rightarrow> get_first d ks dflt cast
             | Inr v \<Rightarrow> v)
          else get_first d ks dflt cast)"

subsection \<open>Sorting\<close>

text \<open>Comparison of strings, by the codes of their characters.\<close>

fun str_lt :: "string \<Rightarrow> string \<Rightarrow> bool" where
  "str_lt [] [] = False"
| "str_lt [] (y # ys) = True"
| "str_lt (x # xs) [] = False"
| "str_lt (x # xs) (y # ys) = (if x = y then str_lt xs ys else (of_char x :: nat) < of_char y)"

text \<open>
  \<open>list.sort(key=...)\<close> is stable, and an exception raised by a comparison of two keys
  ends it. The model inserts the items one by one, each behind the items that are not
  greater; it compares an item with one of the same first component and a different
  second component whenever the list holds such a pair, as every comparison sort must.
\<close>

fun insert_by :: "('k \<Rightarrow> 'k \<Rightarrow> exn + bool) \<Rightarrow> ('a \<Rightarrow> 'k) \<Rightarrow> 'a \<Rightarrow> 'a list \<Rightarrow> exn + 'a list" where
  "insert_by lt key x [] = Inr [x]"
| "insert_by lt key x (y # ys) =
     thn (lt (key x) (key y)) (\<lambda>b.
       if b then Inr (x # y # ys)
       else thn (insert_by lt key x ys) (\<lambda>r. Inr (y # r)))"

fun sort_into :: "('k \<Rightarrow> 'k \<Rightarrow> exn + bool) \<Rightarrow> ('a \<Rightarrow> 'k) \<Rightarrow> 'a list \<Rightarrow> 'a list \<Rightarrow> exn + 'a list" where
  "sort_into lt key [] acc = Inr acc"
| "sort_into lt key (x # xs) acc = thn (insert_by lt key x acc) (sort_into lt key xs)"

definition py_sort :: "('k \<Rightarrow> 'k \<Rightarrow> exn + bool) \<Rightarrow> ('a \<Rightarrow> 'k) \<Rightarrow> 'a list \<Rightarrow> exn + 'a list" where
  "py_sort lt key xs = sort_into lt key xs []"

text \<open>\<open>a < b\<close> on the tuples \<open>(bool, str)\<close>: \<open>False < True\<close>.\<close>

definition code_key_lt :: "bool \<times> string \<Rightarrow> bool \<times> string \<Rightarrow> exn + bool" where
  "code_key_lt a b =
     (if fst a \<noteq> fst b then Inr (\<not> fst a \<and> fst b) else Inr (str_lt (snd a) (snd b)))"

text \<open>\<open>a < b\<close> on the tuples \<open>(int, name)\<close>, where a name is a string or \<open>None\<close>: the
  first components that differ are compared, and \<open>None\<close> cannot be compared with a
  string.\<close>

definition name_key_lt :: "int \<times> string option \<Rightarrow> int \<times> string option \<Rightarrow> exn + bool" where
  "name_key_lt a b =
     (if fst a \<noteq> fst b then Inr (fst a < fst b)
      else if snd a = snd b then Inr False
      else (case (snd a, snd b) of
              (Some s, Some t) \<Rightarrow> Inr (str_lt s t)
            | _ \<Rightarrow> Inl TypeError))"

subsection \<open>The entries of \<open>dims.json\<close>\<close>

record coded =
  code :: "string option"
  label :: "string option"

record city_dim =
  city_id :: int
  city_name :: string
  center :: "pyfloat \<times> pyfloat"
  zoom :: num

record micro_market =
  mm_id :: "int option"
  mm_name :: "string option"
  mm_cityId :: "int option"

text \<open>The key \<open>microMarketName\<close> is absent from a locality, or holds a name or \<open>None\<close>.\<close>

record locality =
  loc_id :: "int option"
  loc_name :: "string option"
  loc_cityId :: "int option"
  loc_microMarketId :: "int option"
  loc_microMarketName :: "string option option"

record dims =
  bhk :: "coded list"
  assets :: "coded list"
  dcity :: "city_dim option"
  micromarkets :: "micro_market list"
  localities :: "locality list"

text \<open>The loops over \<open>bhk_rows\<close> and \<open>ast_rows\<close>, which differ in the column names.\<close>

fun coded_rows :: "string list \<Rightarrow> string list \<Rightarrow> row list \<Rightarrow> coded list" where
  "coded_rows cks lks [] = []"
| "coded_rows cks lks (r # rs) =
     (let c = get_first r cks None str_cast;
          l = get_first r lks c no_cast
      in (if c \<noteq> None then [\<lparr>code = c, label = l\<rparr>] else []) @ coded_rows cks lks rs)"

definition coded_key :: "coded \<Rightarrow> bool \<times> string" where
  "coded_key x = (code x = None, pystr (code x))"

text \<open>\<open>v or default\<close> for a float or \<open>None\<close>.\<close>

definition float_or :: "pyfloat option \<Rightarrow> 'a \<Rightarrow> (pyfloat \<Rightarrow> 'a) \<Rightarrow> 'a" where
  "float_or v dflt wrap =
     (case v of None \<Rightarrow> dflt | Some f \<Rightarrow> if nonzero f then wrap f else dflt)"

text \<open>The loop over \<open>city_rows\<close>, which stops at the first row for Mumbai.\<close>

fun find_city :: "row list \<Rightarrow> city_dim option" where
  "find_city [] = None"
| "find_city (r # rs) =
     (let cid = get_first r [''CityID'', ''CITYID'', ''cityid''] None int_cast;
          name = get_first r [''CityName'', ''CITYNAME'', ''cityname'', ''name''] None no_cast
      in case cid of
           None \<Rightarrow> find_city rs
         | Some c \<Rightarrow>
             if (case name of None \<Rightarrow> False
                 | Some s \<Rightarrow> s \<noteq> [] \<and> map lower (strip s) = ''mumbai'') \<or> c = 13
             then
               (let lon = float_or (get_first r [''CenterLon'', ''center_lon'', ''lon'', ''LON'']
                                      None float_cast) (b64_round (728777 / 10000)) id;
                    lat = float_or (get_first r [''CenterLat'', ''center_lat'', ''lat'', ''LAT'']
                                      None float_cast) (b64_round (19076 / 1000)) id;
                    z = float_or (get_first r [''Zoom'', ''zoom''] None float_cast) (NInt 10) NFlt
                in Some \<lparr>city_id = c,
                         city_name = (case name of None \<Rightarrow> ''Mumbai''
                                      | Some s \<Rightarrow> if s \<noteq> [] then s else ''Mumbai''),
                         center = (lon, lat), zoom = z\<rparr>)
             else find_city rs)"

definition norm_mm :: "row \<Rightarrow> micro_market" where
  "norm_mm r =
     \<lparr>mm_id = get_first r [''MicroMarketID'', ''MICROMARKETID'', ''locationid'', ''LocationID'',
                           ''LOC_ID''] None int_cast,
      mm_name = get_first r [''MicroMarketName'', ''MICROMARKETNAME'', ''locationname'',
                             ''LocationName'', ''NAME''] (Some ''(Unnamed)'') no_cast,
      mm_cityId = get_first r [''CityID'', ''CITYID'', ''cityid''] None int_cast\<rparr>"

text \<open>
  The loop over \<open>mm_rows\<close>. The dictionary \<open>mm_name_by_id\<close> is the list of its
  assignments, the latest first, so that a lookup finds the latest one.
\<close>

fun collect_mm ::
  "row list \<Rightarrow> micro_market list \<Rightarrow> (int \<times> string option) list
     \<Rightarrow> micro_market list \<times> (int \<times> string option) list" where
  "collect_mm [] ms names = (ms, names)"
| "collect_mm (r # rs) ms names =
     (let mm = norm_mm r
      in case mm_id mm of
           None \<Rightarrow> collect_mm rs ms names
         | Some i \<Rightarrow> collect_mm rs (ms @ [mm]) ((i, mm_name mm) # names))"

text \<open>\<open>str(i)\<close> for an integer.\<close>

fun str_nat :: "nat \<Rightarrow> string" where
  "str_nat n =
     (if n < 10 then [''0123456789'' ! n]
      else str_nat (n div 10) @ [''0123456789'' ! (n mod 10)])"

declare str_nat.simps [simp del]

definition str_int :: "int \<Rightarrow> string" where
  "str_int i = (if i < 0 then CHR ''-'' # str_nat (nat (- i)) else str_nat (nat i))"

definition norm_loc :: "row \<Rightarrow> (int \<times> string option) list \<Rightarrow> locality" where
  "norm_loc r mm_name_by_id =
     (let lid = get_first r [''LocalityID'', ''LOCALITYID'', ''sublocationid'', ''SubLocationID'']
                  None int_cast;
          name = get_first r [''LocalityName'', ''LOCALITYNAME'', ''sublocationname'',
                              ''SubLocationName'', ''NAME'']
                   (Some (''Locality '' @ (case lid of None \<Rightarrow> ''None'' | Some i \<Rightarrow> str_int i)))
                   no_cast;
          cid = get_first r [''CityID'', ''CITYID'', ''cityid''] None int_cast;
          mid = get_first r [''MicroMarketID'', ''MICROMARKETID'', ''locationid'', ''LocationID'']
                  None int_cast
      in \<lparr>loc_id = lid, loc_name = name, loc_cityId = cid, loc_microMarketId = mid,
          loc_microMarketName =
            (case mid of
               None \<Rightarrow> None
             | Some m \<Rightarrow>
                 if mm_name_by_id \<noteq> []
                 then Some (case map_of mm_name_by_id m of None \<Rightarrow> None | Some n \<Rightarrow> n)
                 else None)\<rparr>)"

fun collect_loc :: "row list \<Rightarrow> (int \<times> string option) list \<Rightarrow> locality list" where
  "collect_loc [] names = []"
| "collect_loc (r # rs) names =
     (let loc = norm_loc r names
      in (if loc_id loc \<noteq> None then [loc] else []) @ collect_loc rs names)"

definition city_or_0 :: "int option \<Rightarrow> int" where
  "city_or_0 c = (case c of None \<Rightarrow> 0 | Some i \<Rightarrow> i)"

text \<open>The value that \<open>main\<close> passes to \<open>json.dump\<close>, from the rows of the five masters.\<close>

definition build_dims ::
  "row list \<Rightarrow> row list \<Rightarrow> row list \<Rightarrow> row list \<Rightarrow> row list \<Rightarrow> exn + dims" where
  "build_dims bhk_rows ast_rows city_rows mm_rows loc_rows =
     thn (py_sort code_key_lt coded_key
            (coded_rows [''code'', ''CODE'', ''BHK'', ''bhk'', ''bhk_code'']
               [''label'', ''LABEL'', ''name'', ''display'', ''BHKLabel''] bhk_rows)) (\<lambda>b.
     thn (py_sort code_key_lt coded_key
            (coded_rows [''code'', ''CODE'', ''AssetType'', ''ASSETTYPE'', ''asset'', ''asset_code'']
               [''label'', ''LABEL'', ''name'', ''display'', ''AssetTypeName''] ast_rows)) (\<lambda>a.
     let c = find_city city_rows;
         mn = collect_mm mm_rows [] []
     in
     thn (py_sort name_key_lt (\<lambda>x. (city_or_0 (mm_cityId x), mm_name x)) (fst mn)) (\<lambda>ms.
     thn (py_sort name_key_lt (\<lambda>x. (city_or_0 (loc_cityId x), loc_name x))
            (collect_loc loc_rows (snd mn))) (\<lambda>ls.
     Inr \<lparr>bhk = b, assets = a, dcity = c, micromarkets = ms, localities = ls\<rparr>))))"

subsection \<open>The run\<close>

text \<open>
  The files that a run touches: the directory \<open>data/masters\<close>, from file names to
  bytes, and \<open>frontend/dims.json\<close>, absent or holding the text that \<open>json.dump\<close> writes
  for a value, which is kept as that value.
\<close>

record disk =
  masters :: "string \<rightharpoonup> string"
  dims_json :: "dims option"

definition MASTERS :: "string list" where
  "MASTERS = [''dim_bhk.csv'', ''dim_asset_type.csv'', ''dim_city.csv'',
              ''dim_micro_market.csv'', ''dim_locality.csv'']"

definition main_dims :: "'d csv_lib \<Rightarrow> disk \<Rightarrow> exn + disk" where
  "main_dims lib d =
     (let bhk_rows = read_csv_any lib (masters d ''dim_bhk.csv'');
          ast_rows = read_csv_any lib (masters d ''dim_asset_type.csv'');
          city_rows = read_csv_any lib (masters d ''dim_city.csv'');
          mm_rows = read_csv_any lib (masters d ''dim_micro_market.csv'');
          loc_rows = read_csv_any lib (masters d ''dim_locality.csv'')
      in thn (build_dims bhk_rows ast_rows city_rows mm_rows loc_rows) (\<lambda>v.
           Inr (d\<lparr>dims_json := Some v\<rparr>)))"

subsection \<open>Sample masters\<close>

text \<open>
  A library for ASCII files without quotes: every encoding decodes the bytes to
  themselves, the delimiter found is the comma, and the reader splits the lines at the
  delimiter, with \<open>None\<close> for the fields that a short line lacks.
\<close>

fun split_on :: "char \<Rightarrow> string \<Rightarrow> string list" where
  "split_on c [] = [[]]"
| "split_on c (x # xs) =
     (if x = c then [] # split_on c xs
      else (case split_on c xs of [] \<Rightarrow> [[x]] | w # ws \<Rightarrow> (x # w) # ws))"

definition plain_row :: "string list \<Rightarrow> string list \<Rightarrow> row" where
  "plain_row header cells =
     zip header (map Some cells @ replicate (length header - length cells) None)"

definition plain_reader :: "char \<Rightarrow> string \<Rightarrow> row list option" where
  "plain_reader delim text =
     (case filter (\<lambda>l. l \<noteq> []) (split_on (CHR 0x0A) text) of
        [] \<Rightarrow> Some []
      | h # ls \<Rightarrow> Some (map (\<lambda>l. plain_row (split_on delim h) (split_on delim l)) ls))"

definition ex_lib :: "char csv_lib" where
  "ex_lib = \<lparr>decode = (\<lambda>enc raw. Some raw), sniff = (\<lambda>text. Some (CHR '','')),
            excel = CHR '','', dict_reader = plain_reader\<rparr>"

definition ex_disk :: disk where
  "ex_disk =
     \<lparr>masters =
        [''dim_bhk.csv'' \<mapsto> ''code,label'' @ [CHR 0x0A] @ ''2,2 BHK'' @ [CHR 0x0A]
                              @ ''1,1 BHK'' @ [CHR 0x0A],
         ''dim_micro_market.csv'' \<mapsto>
            ''MicroMarketID,MicroMarketName,CityID'' @ [CHR 0x0A] @ ''9,Bandra,13'' @ [CHR 0x0A]
              @ ''7,Andheri,13'' @ [CHR 0x0A],
         ''dim_locality.csv'' \<mapsto>
            ''LocalityID,LocalityName,CityID,MicroMarketID'' @ [CHR 0x0A]
              @ ''101,Versova,13,7'' @ [CHR 0x0A] @ ''102,,13,8'' @ [CHR 0x0A]],
      dims_json = None\<rparr>"

text \<open>What the run on the sample masters writes.\<close>

definition ex_dims :: dims where
  "ex_dims =
     \<lparr>bhk = [\<lparr>code = Some ''1'', label = Some ''1 BHK''\<rparr>,
             \<lparr>code = Some ''2'', label = Some ''2 BHK''\<rparr>],
      assets = [],
      dcity = None,
      micromarkets =
        [\<lparr>mm_id = Some 7, mm_name = Some ''Andheri'', mm_cityId = Some 13\<rparr>,
         \<lparr>mm_id = Some 9, mm_name = Some ''Bandra'', mm_cityId = Some 13\<rparr>],
      localities =
        [\<lparr>loc_id = Some 102, loc_name = Some ''Locality 102'', loc_cityId = Some 13,
          loc_microMarketId = Some 8, loc_microMarketName = Some None\<rparr>,
         \<lparr>loc_id = Some 101, loc_name = Some ''Versova'', loc_cityId = Some 13,
          loc_microMarketId = Some 7, loc_microMarketName = Some (Some ''Andheri'')\<rparr>]\<rparr>"

section \<open>Properties of the MetricsAggregator\<close>

subsection \<open>Auxiliary facts\<close>

lemma thn_Inl [simp]: "thn (Inl e) f = Inl e" by (simp add: thn_def)
lemma thn_Inr [simp]: "thn (Inr x) f = f x" by (simp add: thn_def)
lemma thn_eq_Inr: "thn m f = Inr y \<longleftrightarrow> (\<exists>x. m = Inr x \<and> f x = Inr y)"
  by (cases m) simp_all

lemma ilog2_0: "ilog2 0 = 0" by (simp add: ilog2.simps)
lemma ilog2_1: "ilog2 (Suc 0) = 0" by (simp add: ilog2.simps)
lemma ilog2_num: "ilog2 (numeral k) = (if (numeral k :: nat) < 2 then 0 else Suc (ilog2 (numeral k div 2)))"
  by (rule ilog2.simps)
lemmas float_eval = ilog2_0 ilog2_1 ilog2_num binexp_def round_half_even_def pow2_def b64_round_def Let_def
lemmas parse_eval = py_int_def py_float_def strip_def is_space_def signed_int_def unsigned_int_def digitpart_def is_digit_def
   digits_val_def unsigned_float_def lower_def decimal_def mantissa_def is_e_def pow10_def
lemmas agg_eval = main_def to_key_def getitem_def process_key_def read_metrics_def sample_size_def metric_value_def f2_def int_of_cell_def
  emit_paints_def make_summary_def summary_path_def paint_path_def add_point_def yield_guard_def paint_guard_def pystr_def
  ex_row_def ex_asking_def ex_registered_def ex_rent_def ex_key_def ex_out_def ex_map_def

lemma isfinite_Fin: "isfinite v \<Longrightarrow> \<exists>q. v = Fin q"
  by (cases v) simp_all

lemma f2_cases: "f2 c = None \<or> (\<exists>q. f2 c = Some (Fin q))"
  by (auto simp: f2_def dest: isfinite_Fin split: option.splits)

lemma metric_value_cases:
  "metric_value a col = Inr v \<Longrightarrow> v = None \<or> (\<exists>q. v = Some (Fin q))"
  using f2_cases by (auto simp: metric_value_def getitem_def split: option.splits if_splits)

lemma read_metrics_fin:
  assumes "read_metrics A R N k = Inr m"
  shows "(vA m = None \<or> (\<exists>q. vA m = Some (Fin q))) \<and> (vR m = None \<or> (\<exists>q. vR m = Some (Fin q)))
     \<and> (vN m = None \<or> (\<exists>q. vN m = Some (Fin q)))"
  using assms unfolding read_metrics_def thn_eq_Inr
  by (auto dest!: metric_value_cases)

lemma paint_array_append:
  "paint_array (append_paint k p ps) k' =
     (if k' = k then paint_array ps k @ [p] else paint_array ps k')"
  by (induction ps) (auto simp: paint_array_def)


lemma py_truediv_ok: "x \<noteq> 0 \<Longrightarrow> \<exists>y. py_truediv u (Fin x) = Inr y"
  by (cases u) simp_all

lemma yield_expr_ok:
  "yield_guard r n \<Longrightarrow> (r = None \<or> (\<exists>q. r = Some (Fin q))) \<Longrightarrow> \<exists>y. yield_expr n r = Inr y"
proof -
  assume g: "yield_guard r n" and "r = None \<or> (\<exists>q. r = Some (Fin q))"
  then obtain q where r: "r = Some (Fin q)" by (auto simp: yield_guard_def)
  from g r have q: "q \<noteq> 0" by (simp add: yield_guard_def)
  from g r obtain z where n: "n = Some z" by (cases n) (simp_all add: yield_guard_def)
  show ?thesis unfolding r n yield_expr_def using py_truediv_ok [OF q] by simp
qed

lemma pos_nonzero: "(q \<noteq> 0 \<and> 0 < q \<and> P) = (0 < (q::real) \<and> P)"
  by (cases "0 < q") simp_all

lemma yield_guard_iff:
  "(r = None \<or> (\<exists>q. r = Some (Fin q))) \<Longrightarrow> (n = None \<or> (\<exists>q. n = Some (Fin q))) \<Longrightarrow>
   yield_guard r n \<longleftrightarrow> (\<exists>x z. r = Some (Fin x) \<and> 0 < x \<and> n = Some (Fin z) \<and> z \<noteq> 0)"
  by (elim disjE exE) (simp_all add: yield_guard_def pos_nonzero)

lemma paint_guard_iff:
  "(v = None \<or> (\<exists>q. v = Some (Fin q))) \<Longrightarrow>
   paint_guard v c ms \<longleftrightarrow> (\<exists>x. v = Some (Fin x) \<and> x \<noteq> 0) \<and> ms \<le> c"
  by (elim disjE exE) (simp_all add: paint_guard_def)


lemma add_point_Inr:
  "int_of_cell l = Inr i \<Longrightarrow>
   add_point metric (mo, a, b, l) v ps =
     Inr (append_paint (metric, mo, a, b) \<lparr>pid = i, pvalue = v\<rparr> ps)"
  by (simp add: add_point_def)

lemma paint_step_Inr:
  "int_of_cell l = Inr i \<Longrightarrow>
   (case v of None \<Rightarrow> Inr ps
    | Some x \<Rightarrow> if paint_guard v c ms then add_point metric (mo, a, b, l) x ps else Inr ps) =
   Inr (if paint_guard v c ms
        then append_paint (metric, mo, a, b) \<lparr>pid = i, pvalue = the v\<rparr> ps else ps)"
  by (cases v) (simp_all add: add_point_Inr paint_guard_def)

lemma paint_array_if:
  "paint_array (if c then append_paint k p ps else ps) k' =
     paint_array ps k' @ (if c \<and> k' = k then [p] else [])"
  by (simp add: paint_array_append)

lemma emit_paints_steps:
  assumes i: "int_of_cell l = Inr i"
  shows "emit_paints ms (mo, a, b, l) m ps =
    thn (if yield_guard (vR m) (vN m) \<and> ms \<le> nR m \<and> ms \<le> nN m
         then thn (yield_expr (vN m) (vR m)) (\<lambda>y. add_point ''yield'' (mo, a, b, l) y ps)
         else Inr ps) (\<lambda>p1.
    Inr (if paint_guard (vN m) (nN m) ms
         then append_paint (''rent'', mo, a, b) \<lparr>pid = i, pvalue = the (vN m)\<rparr>
               (if paint_guard (vR m) (nR m) ms
                then append_paint (''registered'', mo, a, b) \<lparr>pid = i, pvalue = the (vR m)\<rparr>
                      (if paint_guard (vA m) (nA m) ms
                       then append_paint (''asking'', mo, a, b) \<lparr>pid = i, pvalue = the (vA m)\<rparr> p1
                       else p1)
                else (if paint_guard (vA m) (nA m) ms
                       then append_paint (''asking'', mo, a, b) \<lparr>pid = i, pvalue = the (vA m)\<rparr> p1
                       else p1))
         else (if paint_guard (vR m) (nR m) ms
                then append_paint (''registered'', mo, a, b) \<lparr>pid = i, pvalue = the (vR m)\<rparr>
                      (if paint_guard (vA m) (nA m) ms
                       then append_paint (''asking'', mo, a, b) \<lparr>pid = i, pvalue = the (vA m)\<rparr> p1
                       else p1)
                else (if paint_guard (vA m) (nA m) ms
                       then append_paint (''asking'', mo, a, b) \<lparr>pid = i, pvalue = the (vA m)\<rparr> p1
                       else p1))))"
  unfolding emit_paints_def paint_step_Inr [OF i] thn_Inr ..

lemma make_summary_fields:
  assumes "make_summary (mo, a, b, l) m = Inr s" and "int_of_cell l = Inr i"
  shows "s_month s = mo \<and> s_asset s = a \<and> s_bhk s = b \<and> locality_id s = i
    \<and> median_asking s = vA m \<and> median_registered s = vR m \<and> median_rent s = vN m
    \<and> count_asking s = nA m \<and> count_registered s = nR m \<and> count_rent s = nN m"
  using assms by (auto simp: make_summary_def thn_eq_Inr)

lemma make_summary_yield:
  assumes "make_summary (mo, a, b, l) m = Inr s"
  shows "(yield_guard (vR m) (vN m) \<longrightarrow> (\<exists>y. yield_expr (vN m) (vR m) = Inr y \<and> yield s = Some y))
    \<and> (\<not> yield_guard (vR m) (vN m) \<longrightarrow> yield s = None)"
  using assms by (cases "yield_guard (vR m) (vN m)") (auto simp: make_summary_def thn_eq_Inr)

lemma process_key_unfold:
  assumes "process_key ms A R N (mo, a, b, l) st = Inr st'"
  shows "\<exists>m ps s i path. read_metrics A R N (mo, a, b, l) = Inr m
     \<and> int_of_cell l = Inr i
     \<and> emit_paints ms (mo, a, b, l) m (paints st) = Inr ps
     \<and> make_summary (mo, a, b, l) m = Inr s
     \<and> summary_path (mo, a, b, l) = Inr path
     \<and> st' = \<lparr>paints = ps, summaries = summaries st @ [(path, s)]\<rparr>"
proof -
  from assms obtain m ps s path where
    m: "read_metrics A R N (mo, a, b, l) = Inr m" and
    ps: "emit_paints ms (mo, a, b, l) m (paints st) = Inr ps" and
    s: "make_summary (mo, a, b, l) m = Inr s" and
    path: "summary_path (mo, a, b, l) = Inr path" and
    st': "st' = \<lparr>paints = ps, summaries = summaries st @ [(path, s)]\<rparr>"
    unfolding process_key_def thn_eq_Inr by auto
  from s obtain i where "int_of_cell l = Inr i"
    by (auto simp: make_summary_def thn_eq_Inr)
  with m ps s path st' show ?thesis by blast
qed


lemma emit_paints_arrays:
  assumes e: "emit_paints ms (mo, a, b, l) m ps = Inr ps'" and i: "int_of_cell l = Inr i"
  shows "paint_array ps' (''asking'', mo, a, b) = paint_array ps (''asking'', mo, a, b) @
           (if paint_guard (vA m) (nA m) ms then [\<lparr>pid = i, pvalue = the (vA m)\<rparr>] else [])
    \<and> paint_array ps' (''registered'', mo, a, b) = paint_array ps (''registered'', mo, a, b) @
           (if paint_guard (vR m) (nR m) ms then [\<lparr>pid = i, pvalue = the (vR m)\<rparr>] else [])
    \<and> paint_array ps' (''rent'', mo, a, b) = paint_array ps (''rent'', mo, a, b) @
           (if paint_guard (vN m) (nN m) ms then [\<lparr>pid = i, pvalue = the (vN m)\<rparr>] else [])
    \<and> (yield_guard (vR m) (vN m) \<and> ms \<le> nR m \<and> ms \<le> nN m \<longrightarrow>
           (\<exists>y. yield_expr (vN m) (vR m) = Inr y \<and>
             paint_array ps' (''yield'', mo, a, b) =
               paint_array ps (''yield'', mo, a, b) @ [\<lparr>pid = i, pvalue = y\<rparr>]))
    \<and> (\<not> (yield_guard (vR m) (vN m) \<and> ms \<le> nR m \<and> ms \<le> nN m) \<longrightarrow>
           paint_array ps' (''yield'', mo, a, b) = paint_array ps (''yield'', mo, a, b))"
proof -
  let ?yc = "yield_guard (vR m) (vN m) \<and> ms \<le> nR m \<and> ms \<le> nN m"
  from e obtain p1 where
    p1: "(if ?yc then thn (yield_expr (vN m) (vR m)) (\<lambda>y. add_point ''yield'' (mo, a, b, l) y ps)
          else Inr ps) = Inr p1"
    and ps': "ps' = (if paint_guard (vN m) (nN m) ms
         then append_paint (''rent'', mo, a, b) \<lparr>pid = i, pvalue = the (vN m)\<rparr>
               (if paint_guard (vR m) (nR m) ms
                then append_paint (''registered'', mo, a, b) \<lparr>pid = i, pvalue = the (vR m)\<rparr>
                      (if paint_guard (vA m) (nA m) ms
                       then append_paint (''asking'', mo, a, b) \<lparr>pid = i, pvalue = the (vA m)\<rparr> p1
                       else p1)
                else (if paint_guard (vA m) (nA m) ms
                       then append_paint (''asking'', mo, a, b) \<lparr>pid = i, pvalue = the (vA m)\<rparr> p1
                       else p1))
         else (if paint_guard (vR m) (nR m) ms
                then append_paint (''registered'', mo, a, b) \<lparr>pid = i, pvalue = the (vR m)\<rparr>
                      (if paint_guard (vA m) (nA m) ms
                       then append_paint (''asking'', mo, a, b) \<lparr>pid = i, pvalue = the (vA m)\<rparr> p1
                       else p1)
                else (if paint_guard (vA m) (nA m) ms
                       then append_paint (''asking'', mo, a, b) \<lparr>pid = i, pvalue = the (vA m)\<rparr> p1
                       else p1)))"
    unfolding emit_paints_steps [OF i] thn_eq_Inr by blast
  have y: "?yc \<longrightarrow> (\<exists>y. yield_expr (vN m) (vR m) = Inr y \<and>
                  p1 = append_paint (''yield'', mo, a, b) \<lparr>pid = i, pvalue = y\<rparr> ps)"
  proof
    assume c: ?yc
    with p1 have "thn (yield_expr (vN m) (vR m)) (\<lambda>y. add_point ''yield'' (mo, a, b, l) y ps) = Inr p1"
      by simp
    then obtain y where "yield_expr (vN m) (vR m) = Inr y"
      and "add_point ''yield'' (mo, a, b, l) y ps = Inr p1"
      unfolding thn_eq_Inr by blast
    then show "\<exists>y. yield_expr (vN m) (vR m) = Inr y \<and>
                  p1 = append_paint (''yield'', mo, a, b) \<lparr>pid = i, pvalue = y\<rparr> ps"
      by (simp add: add_point_Inr [OF i])
  qed
  have n: "\<not> ?yc \<longrightarrow> p1 = ps"
  proof
    assume c: "\<not> ?yc"
    from p1 show "p1 = ps" unfolding if_not_P [OF c] by simp
  qed
  have other: "paint_array p1 (metric, mo, a, b) = paint_array ps (metric, mo, a, b)"
    if "metric \<noteq> ''yield''" for metric
  proof (cases ?yc)
    case True
    with y obtain yv where "p1 = append_paint (''yield'', mo, a, b) \<lparr>pid = i, pvalue = yv\<rparr> ps"
      by blast
    then show ?thesis using that by (simp add: paint_array_append)
  next
    case False
    with n show ?thesis by simp
  qed
  have A: "paint_array ps' (''asking'', mo, a, b) = paint_array ps (''asking'', mo, a, b) @
           (if paint_guard (vA m) (nA m) ms then [\<lparr>pid = i, pvalue = the (vA m)\<rparr>] else [])"
    unfolding ps' by (simp add: paint_array_append other)
  have R: "paint_array ps' (''registered'', mo, a, b) = paint_array ps (''registered'', mo, a, b) @
           (if paint_guard (vR m) (nR m) ms then [\<lparr>pid = i, pvalue = the (vR m)\<rparr>] else [])"
    unfolding ps' by (simp add: paint_array_append other)
  have N: "paint_array ps' (''rent'', mo, a, b) = paint_array ps (''rent'', mo, a, b) @
           (if paint_guard (vN m) (nN m) ms then [\<lparr>pid = i, pvalue = the (vN m)\<rparr>] else [])"
    unfolding ps' by (simp add: paint_array_append other)
  have yl: "paint_array ps' (''yield'', mo, a, b) = paint_array p1 (''yield'', mo, a, b)"
    unfolding ps' by (simp add: paint_array_append)
  have Y1: "?yc \<longrightarrow> (\<exists>y. yield_expr (vN m) (vR m) = Inr y \<and>
             paint_array ps' (''yield'', mo, a, b) =
               paint_array ps (''yield'', mo, a, b) @ [\<lparr>pid = i, pvalue = y\<rparr>])"
  proof
    assume ?yc
    with y obtain yv where yv: "yield_expr (vN m) (vR m) = Inr yv"
      and "p1 = append_paint (''yield'', mo, a, b) \<lparr>pid = i, pvalue = yv\<rparr> ps"
      by blast
    then have "paint_array ps' (''yield'', mo, a, b) =
               paint_array ps (''yield'', mo, a, b) @ [\<lparr>pid = i, pvalue = yv\<rparr>]"
      unfolding yl by (simp add: paint_array_append)
    with yv show "\<exists>y. yield_expr (vN m) (vR m) = Inr y \<and>
             paint_array ps' (''yield'', mo, a, b) =
               paint_array ps (''yield'', mo, a, b) @ [\<lparr>pid = i, pvalue = y\<rparr>]"
      by blast
  qed
  have Y2: "\<not> ?yc \<longrightarrow> paint_array ps' (''yield'', mo, a, b) = paint_array ps (''yield'', mo, a, b)"
    using n unfolding yl by simp
  from A R N Y1 Y2 show ?thesis by blast
qed

lemma float_1000000: "py_float ''1000000'' = Some (Fin 1000000)" by (simp add: parse_eval float_eval)
lemma float_10000: "py_float ''10000'' = Some (Fin 10000)" by (simp add: parse_eval float_eval)
lemma float_0: "py_float ''0'' = Some (Fin 0)" by (simp add: parse_eval float_eval)
lemma float_0_12: "py_float ''0.12'' = Some (Fin (1080863910568919 / 9007199254740992))"
  by (simp add: parse_eval float_eval)
lemma float_empty: "py_float [] = None" by (simp add: parse_eval)
lemma float_text: "py_float ''n/a'' = None" by (simp add: parse_eval)
lemma float_nan: "py_float ''nan'' = Some NaN" by (simp add: parse_eval)
lemma float_inf: "py_float ''inf'' = Some PInf" by (simp add: parse_eval)
lemma int_5: "py_int ''5'' = Some 5" by (simp add: parse_eval)
lemma int_20: "py_int ''20'' = Some 20" by (simp add: parse_eval)
lemma int_50: "py_int ''50'' = Some 50" by (simp add: parse_eval)
lemma int_101: "py_int ''101'' = Some 101" by (simp add: parse_eval)
lemma int_abc: "py_int ''abc'' = None" by (simp add: parse_eval)
lemma int_12_5: "py_int ''12.5'' = None" by (simp add: parse_eval)
lemma yield_example:
  "yield_expr (Some (Fin 10000)) (Some (Fin 1000000)) =
     Inr (Fin (1080863910568919 / 9007199254740992))"
  by (simp add: yield_expr_def float_eval)

lemma float_neg_infinity: "py_float ''-Infinity'' = Some NInf" by (simp add: parse_eval)

lemma float_5000000: "py_float ''5000000'' = Some (Fin 5000000)"
  by (simp add: parse_eval float_eval)

lemma zero_guards:
  "\<not> paint_guard (Some (Fin 0)) n ms"
  "\<not> yield_guard (Some (Fin 0)) v"
  "\<not> yield_guard v (Some (Fin 0))"
  by (simp_all add: paint_guard_def yield_guard_def split: option.split)

lemma guards_None:
  "\<not> paint_guard None n ms" "\<not> yield_guard None v"
  by (simp_all add: paint_guard_def yield_guard_def)

lemma read_metrics_absent:
  assumes "read_metrics A R N k = Inr m" and "A k = None" and "R k = None"
  shows "nA m = 0 \<and> nR m = 0 \<and> vA m = None \<and> vR m = None"
  using assms unfolding read_metrics_def
  by (auto simp: thn_eq_Inr sample_size_def metric_value_def)

lemma process_keys_summaries:
  "process_keys ms A R N ks st = Inr st' \<Longrightarrow>
   \<exists>xs. summaries st' = summaries st @ xs \<and>
        list_all2 (\<lambda>k e. \<exists>m. read_metrics A R N k = Inr m \<and> make_summary k m = Inr (snd e)
                      \<and> summary_path k = Inr (fst e)) ks xs"
proof (induction ks arbitrary: st)
  case Nil
  then show ?case by simp
next
  case (Cons k ks)
  from Cons.prems obtain st1 where
    k: "process_key ms A R N k st = Inr st1" and
    ks: "process_keys ms A R N ks st1 = Inr st'"
    by (auto simp: thn_eq_Inr)
  obtain mo a b l where kt: "k = (mo, a, b, l)" by (cases k)
  from process_key_unfold [OF k [unfolded kt]] obtain m s path where
    m: "read_metrics A R N k = Inr m" and s: "make_summary k m = Inr s" and
    path: "summary_path k = Inr path" and
    st1: "summaries st1 = summaries st @ [(path, s)]"
    unfolding kt by auto
  from Cons.IH [OF ks] obtain xs where
    xs: "summaries st' = summaries st1 @ xs" and
    all: "list_all2 (\<lambda>k e. \<exists>m. read_metrics A R N k = Inr m \<and> make_summary k m = Inr (snd e)
                      \<and> summary_path k = Inr (fst e)) ks xs"
    by blast
  from xs st1 have "summaries st' = summaries st @ ((path, s) # xs)" by simp
  moreover from m s path all have
    "list_all2 (\<lambda>k e. \<exists>m. read_metrics A R N k = Inr m \<and> make_summary k m = Inr (snd e)
                      \<and> summary_path k = Inr (fst e)) (k # ks) ((path, s) # xs)"
    by simp
  ultimately show ?case by blast
qed

lemma main_unfold:
  assumes "main ms ask reg rent ks = Inr fs"
    and "index_rows ask Map.empty = Inr A" and "index_rows reg Map.empty = Inr R"
    and "index_rows rent Map.empty = Inr N"
  shows "\<exists>st. process_keys ms A R N ks \<lparr>paints = [], summaries = []\<rparr> = Inr st
      \<and> write_paints (paints st) = Inr (choropleth_files fs)
      \<and> summary_files fs = summaries st"
  using assms unfolding main_def by (auto simp: thn_eq_Inr)

lemma rent_only_pass:
  assumes m: "read_metrics A R N (mo, a, b, l) = Inr m"
    and an: "A (mo, a, b, l) = None" and rn: "R (mo, a, b, l) = None"
    and p: "process_key ms A R N (mo, a, b, l) st = Inr st'"
  shows "\<exists>i. int_of_cell l = Inr i
     \<and> paint_array (paints st') (''asking'', mo, a, b) = paint_array (paints st) (''asking'', mo, a, b)
     \<and> paint_array (paints st') (''registered'', mo, a, b) =
         paint_array (paints st) (''registered'', mo, a, b)
     \<and> paint_array (paints st') (''yield'', mo, a, b) = paint_array (paints st) (''yield'', mo, a, b)
     \<and> paint_array (paints st') (''rent'', mo, a, b) =
         paint_array (paints st) (''rent'', mo, a, b) @
           (if (\<exists>z. vN m = Some (Fin z) \<and> z \<noteq> 0) \<and> ms \<le> nN m
            then [\<lparr>pid = i, pvalue = the (vN m)\<rparr>] else [])"
proof -
  from process_key_unfold [OF p] m
  obtain ps s i path where
    i: "int_of_cell l = Inr i" and
    e: "emit_paints ms (mo, a, b, l) m (paints st) = Inr ps" and
    st': "st' = \<lparr>paints = ps, summaries = summaries st @ [(path, s)]\<rparr>"
    by auto
  have ps: "paints st' = ps" using st' by simp
  from read_metrics_absent [OF m an rn] have ab: "vA m = None" "vR m = None" by simp_all
  from read_metrics_fin [OF m] have fn: "vN m = None \<or> (\<exists>q. vN m = Some (Fin q))" by blast
  note arr = emit_paints_arrays [OF e i, folded ps, unfolded ab paint_guard_iff [OF fn]]
  from arr i show ?thesis by (simp add: guards_None)
qed

subsection \<open>Runs of the loop body on the sample inputs\<close>

lemma read_full:
  "read_metrics (ex_map (ex_asking ''5000000'' ''20'')) (ex_map (ex_registered ''1000000'' ''20''))
     (ex_map (ex_rent ''10000'' ''20'')) ex_key =
   Inr \<lparr>nA = 20, nR = 20, nN = 20, vA = Some (Fin 5000000), vR = Some (Fin 1000000),
        vN = Some (Fin 10000)\<rparr>"
  by (simp add: agg_eval int_20 float_5000000 float_1000000 float_10000)

lemma process_full:
  "process_key 20 (ex_map (ex_asking ''5000000'' ''20'')) (ex_map (ex_registered ''1000000'' ''20''))
     (ex_map (ex_rent ''10000'' ''20'')) ex_key ex_out =
   Inr \<lparr>paints =
          [((''yield'', Some ''2025-07'', Some ''Residential'', Some ''2''),
            [\<lparr>pid = 101, pvalue = Fin (1080863910568919 / 9007199254740992)\<rparr>]),
           ((''asking'', Some ''2025-07'', Some ''Residential'', Some ''2''),
            [\<lparr>pid = 101, pvalue = Fin 5000000\<rparr>]),
           ((''registered'', Some ''2025-07'', Some ''Residential'', Some ''2''),
            [\<lparr>pid = 101, pvalue = Fin 1000000\<rparr>]),
           ((''rent'', Some ''2025-07'', Some ''Residential'', Some ''2''),
            [\<lparr>pid = 101, pvalue = Fin 10000\<rparr>])],
        summaries =
          [([''summary'', ''101'', ''2025-07'', ''Residential'', ''2.json''],
            \<lparr>s_month = Some ''2025-07'', s_asset = Some ''Residential'', s_bhk = Some ''2'',
               locality_id = 101, median_asking = Some (Fin 5000000),
               median_registered = Some (Fin 1000000), median_rent = Some (Fin 10000),
               yield = Some (Fin (1080863910568919 / 9007199254740992)),
               count_asking = 20, count_registered = 20, count_rent = 20\<rparr>)]\<rparr>"
  by (simp add: agg_eval int_20 int_101 float_5000000 float_1000000 float_10000 yield_example)

lemma read_zero:
  "read_metrics (ex_map (ex_asking ''0'' ''20'')) (ex_map (ex_registered ''0'' ''20''))
     (ex_map (ex_rent ''0'' ''20'')) ex_key =
   Inr \<lparr>nA = 20, nR = 20, nN = 20, vA = Some (Fin 0), vR = Some (Fin 0), vN = Some (Fin 0)\<rparr>"
  by (simp add: agg_eval int_20 float_0)

lemma process_zero:
  "process_key 20 (ex_map (ex_asking ''0'' ''20'')) (ex_map (ex_registered ''0'' ''20''))
     (ex_map (ex_rent ''0'' ''20'')) ex_key ex_out =
   Inr \<lparr>paints = [],
        summaries =
          [([''summary'', ''101'', ''2025-07'', ''Residential'', ''2.json''],
            \<lparr>s_month = Some ''2025-07'', s_asset = Some ''Residential'', s_bhk = Some ''2'',
               locality_id = 101, median_asking = Some (Fin 0),
               median_registered = Some (Fin 0), median_rent = Some (Fin 0),
               yield = None,
               count_asking = 20, count_registered = 20, count_rent = 20\<rparr>)]\<rparr>"
  by (simp add: agg_eval int_20 int_101 float_0)

lemma read_low:
  "read_metrics Map.empty (ex_map (ex_registered ''1000000'' ''5''))
     (ex_map (ex_rent ''10000'' ''5'')) ex_key =
   Inr \<lparr>nA = 0, nR = 5, nN = 5, vA = None, vR = Some (Fin 1000000), vN = Some (Fin 10000)\<rparr>"
  by (simp add: agg_eval int_5 float_1000000 float_10000)

lemma process_low:
  "process_key 20 Map.empty (ex_map (ex_registered ''1000000'' ''5''))
     (ex_map (ex_rent ''10000'' ''5'')) ex_key ex_out =
   Inr \<lparr>paints = [],
        summaries =
          [([''summary'', ''101'', ''2025-07'', ''Residential'', ''2.json''],
            \<lparr>s_month = Some ''2025-07'', s_asset = Some ''Residential'', s_bhk = Some ''2'',
               locality_id = 101, median_asking = None,
               median_registered = Some (Fin 1000000), median_rent = Some (Fin 10000),
               yield = Some (Fin (1080863910568919 / 9007199254740992)),
               count_asking = 0, count_registered = 5, count_rent = 5\<rparr>)]\<rparr>"
  by (simp add: agg_eval int_5 int_101 float_1000000 float_10000 yield_example)

lemma index_rent_only:
  "index_rows [ex_rent v n] Map.empty = Inr (ex_map (ex_rent v n))"
  by (simp add: to_key_def getitem_def ex_row_def ex_rent_def ex_key_def ex_map_def)

lemma order_rent_only:
  "iteration_order Map.empty Map.empty (ex_map r) [ex_key]"
  by (simp add: iteration_order_def ex_map_def)

lemma read_rent_only:
  "read_metrics Map.empty Map.empty (ex_map (ex_rent ''10000'' ''20'')) ex_key =
   Inr \<lparr>nA = 0, nR = 0, nN = 20, vA = None, vR = None, vN = Some (Fin 10000)\<rparr>"
  by (simp add: agg_eval int_20 float_10000)

lemma process_rent_only:
  "process_key 20 Map.empty Map.empty (ex_map (ex_rent ''10000'' ''20'')) ex_key ex_out =
   Inr \<lparr>paints =
          [((''rent'', Some ''2025-07'', Some ''Residential'', Some ''2''),
            [\<lparr>pid = 101, pvalue = Fin 10000\<rparr>])],
        summaries =
          [([''summary'', ''101'', ''2025-07'', ''Residential'', ''2.json''],
            \<lparr>s_month = Some ''2025-07'', s_asset = Some ''Residential'', s_bhk = Some ''2'',
               locality_id = 101, median_asking = None,
               median_registered = None, median_rent = Some (Fin 10000),
               yield = None,
               count_asking = 0, count_registered = 0, count_rent = 20\<rparr>)]\<rparr>"
  by (simp add: agg_eval int_20 int_101 float_10000)

lemma run_rent_only:
  "main 20 [] [] [ex_rent ''10000'' ''20''] [ex_key] =
   Inr \<lparr>choropleth_files =
          [([''choropleth'', ''rent'', ''2025-07'', ''Residential'', ''2.json''],
            [\<lparr>pid = 101, pvalue = Fin 10000\<rparr>])],
        summary_files =
          [([''summary'', ''101'', ''2025-07'', ''Residential'', ''2.json''],
            \<lparr>s_month = Some ''2025-07'', s_asset = Some ''Residential'', s_bhk = Some ''2'',
               locality_id = 101, median_asking = None,
               median_registered = None, median_rent = Some (Fin 10000),
               yield = None,
               count_asking = 0, count_registered = 0, count_rent = 20\<rparr>)]\<rparr>"
  by (simp add: agg_eval int_20 int_101 float_10000)

section \<open>The claims about the MetricsAggregator\<close>

subsection \<open>When the summary carries a yield\<close>

text \<open>
  C1, as amended. The claim is that the summary's yield is non-null only when the registered
  price is present and positive, the rent is present, and both sample counts reach
  \<open>min_sample\<close>. The summary does not look at the sample counts: \<open>min_sample\<close> is the
  "min sample size to include in paints" and gates the choropleth points only. For every key
  that the loop body processes, the summary written for it has a yield exactly when the
  registered price is a finite number greater than 0 and the rent is a finite number other
  than 0, whatever the sample counts are.
\<close>

theorem summary_yield_defined_iff:
  assumes r: "read_metrics A R N k = Inr m"
    and p: "process_key ms A R N k st = Inr st'"
  shows "\<exists>path s. summaries st' = summaries st @ [(path, s)]
     \<and> median_registered s = vR m \<and> median_rent s = vN m
     \<and> count_registered s = nR m \<and> count_rent s = nN m
     \<and> (yield s \<noteq> None \<longleftrightarrow>
          (\<exists>x z. vR m = Some (Fin x) \<and> 0 < x \<and> vN m = Some (Fin z) \<and> z \<noteq> 0))"
proof -
  obtain mo a b l where k: "k = (mo, a, b, l)" by (cases k)
  from process_key_unfold [OF p [unfolded k]] r [unfolded k]
  obtain ps s i path where
    i: "int_of_cell l = Inr i" and
    s: "make_summary (mo, a, b, l) m = Inr s" and
    st': "st' = \<lparr>paints = ps, summaries = summaries st @ [(path, s)]\<rparr>"
    by auto
  from read_metrics_fin [OF r] have
    fr: "vR m = None \<or> (\<exists>q. vR m = Some (Fin q))" and
    fn: "vN m = None \<or> (\<exists>q. vN m = Some (Fin q))"
    by blast+
  from make_summary_yield [OF s] have "yield s \<noteq> None \<longleftrightarrow> yield_guard (vR m) (vN m)"
    by (cases "yield_guard (vR m) (vN m)") auto
  then have y: "yield s \<noteq> None \<longleftrightarrow>
      (\<exists>x z. vR m = Some (Fin x) \<and> 0 < x \<and> vN m = Some (Fin z) \<and> z \<noteq> 0)"
    unfolding yield_guard_iff [OF fr fn] .
  from make_summary_fields [OF s i] have
    "median_registered s = vR m \<and> median_rent s = vN m
     \<and> count_registered s = nR m \<and> count_rent s = nN m"
    by blast
  with y st' show ?thesis by auto
qed

theorem summary_yield_defined_iff_witness:
  "read_metrics Map.empty (ex_map (ex_registered ''1000000'' ''5''))
     (ex_map (ex_rent ''10000'' ''5'')) ex_key =
   Inr \<lparr>nA = 0, nR = 5, nN = 5, vA = None, vR = Some (Fin 1000000), vN = Some (Fin 10000)\<rparr>
   \<and> (\<exists>st'. process_key 20 Map.empty (ex_map (ex_registered ''1000000'' ''5''))
          (ex_map (ex_rent ''10000'' ''5'')) ex_key ex_out = Inr st'
        \<and> (\<exists>path s. summaries st' = summaries ex_out @ [(path, s)] \<and> yield s \<noteq> None
              \<and> count_registered s = 5 \<and> count_rent s = 5))"
proof -
  note r = read_low
  note p = process_low
  from summary_yield_defined_iff [OF r p] r p show ?thesis
    by simp
qed

text \<open>
  The claim as stated fails on a registered price of 1000000 and a rent of 10000 with five
  samples each and \<open>min_sample = 20\<close>: the summary has the yield 0.12 although neither
  count reaches the threshold, and no choropleth file is written.
\<close>

theorem summary_yield_counterexample:
  "main 20 [] [ex_registered ''1000000'' ''5''] [ex_rent ''10000'' ''5''] [ex_key] =
     Inr \<lparr>choropleth_files = [],
          summary_files =
            [([''summary'', ''101'', ''2025-07'', ''Residential'', ''2.json''],
              \<lparr>s_month = Some ''2025-07'', s_asset = Some ''Residential'', s_bhk = Some ''2'',
                 locality_id = 101, median_asking = None,
                 median_registered = Some (Fin 1000000), median_rent = Some (Fin 10000),
                 yield = Some (Fin (1080863910568919 / 9007199254740992)),
                 count_asking = 0, count_registered = 5, count_rent = 5\<rparr>)]\<rparr>"
  by (simp add: agg_eval int_5 int_101 float_1000000 float_10000 yield_example)

subsection \<open>Parsing of the numeric fields\<close>

text \<open>
  C2. The claim is that a sample-size field that is absent, empty or not an integer is
  read as 0 and never makes the aggregator abort. The expression
  \<open>int(a["SampleSize"]) if a and a.get("SampleSize") else 0\<close> guards against the absent
  and the empty field only: on the asking row with \<open>SampleSize = "abc"\<close> the call
  \<open>int("abc")\<close> raises \<open>ValueError\<close> and the run aborts, whereas \<open>f2\<close> catches the same
  failure of \<open>float\<close>.
\<close>

theorem unparseable_sample_size_aborts:
  "main 20 [ex_asking ''5000000'' ''abc''] [] [] [ex_key] = Inl ValueError"
  by (simp add: agg_eval int_abc)

subsection \<open>Which choropleth points are emitted\<close>

text \<open>
  C3, as amended. The claim is that a point is emitted for a metric if and only if its value
  is present and the sample counts reach \<open>min_sample\<close>. The guards are \<open>if vA and ...\<close>, so
  a value of 0.0 counts as absent. For every key and each metric, one pass of the loop body
  appends exactly one point \<open>{id, value}\<close> to the metric's array if the value is present and
  not 0.0 and its sample count is at least \<open>min_sample\<close> (for the yield: the registered
  price is greater than 0, the rent is not 0.0 and both counts are at least \<open>min_sample\<close>),
  and appends nothing otherwise; a count equal to \<open>min_sample\<close> qualifies.
\<close>

theorem paint_emitted_iff:
  assumes r: "read_metrics A R N (mo, a, b, l) = Inr m"
    and p: "process_key ms A R N (mo, a, b, l) st = Inr st'"
  shows "\<exists>i. int_of_cell l = Inr i
     \<and> paint_array (paints st') (''asking'', mo, a, b) =
         paint_array (paints st) (''asking'', mo, a, b) @
           (if (\<exists>x. vA m = Some (Fin x) \<and> x \<noteq> 0) \<and> ms \<le> nA m
            then [\<lparr>pid = i, pvalue = the (vA m)\<rparr>] else [])
     \<and> paint_array (paints st') (''registered'', mo, a, b) =
         paint_array (paints st) (''registered'', mo, a, b) @
           (if (\<exists>x. vR m = Some (Fin x) \<and> x \<noteq> 0) \<and> ms \<le> nR m
            then [\<lparr>pid = i, pvalue = the (vR m)\<rparr>] else [])
     \<and> paint_array (paints st') (''rent'', mo, a, b) =
         paint_array (paints st) (''rent'', mo, a, b) @
           (if (\<exists>x. vN m = Some (Fin x) \<and> x \<noteq> 0) \<and> ms \<le> nN m
            then [\<lparr>pid = i, pvalue = the (vN m)\<rparr>] else [])
     \<and> (if (\<exists>x z. vR m = Some (Fin x) \<and> 0 < x \<and> vN m = Some (Fin z) \<and> z \<noteq> 0)
            \<and> ms \<le> nR m \<and> ms \<le> nN m
         then \<exists>y. yield_expr (vN m) (vR m) = Inr y \<and>
                paint_array (paints st') (''yield'', mo, a, b) =
                  paint_array (paints st) (''yield'', mo, a, b) @ [\<lparr>pid = i, pvalue = y\<rparr>]
         else paint_array (paints st') (''yield'', mo, a, b) =
                paint_array (paints st) (''yield'', mo, a, b))"
proof -
  from process_key_unfold [OF p] r
  obtain ps s i path where
    i: "int_of_cell l = Inr i" and
    e: "emit_paints ms (mo, a, b, l) m (paints st) = Inr ps" and
    st': "st' = \<lparr>paints = ps, summaries = summaries st @ [(path, s)]\<rparr>"
    by auto
  from read_metrics_fin [OF r] have
    fa: "vA m = None \<or> (\<exists>q. vA m = Some (Fin q))" and
    fr: "vR m = None \<or> (\<exists>q. vR m = Some (Fin q))" and
    fn: "vN m = None \<or> (\<exists>q. vN m = Some (Fin q))"
    by blast+
  have ps: "paints st' = ps" using st' by simp
  note arr = emit_paints_arrays [OF e i, unfolded paint_guard_iff [OF fa] paint_guard_iff [OF fr]
      paint_guard_iff [OF fn] yield_guard_iff [OF fr fn], folded ps]
  from arr have A: "paint_array (paints st') (''asking'', mo, a, b) =
         paint_array (paints st) (''asking'', mo, a, b) @
           (if (\<exists>x. vA m = Some (Fin x) \<and> x \<noteq> 0) \<and> ms \<le> nA m
            then [\<lparr>pid = i, pvalue = the (vA m)\<rparr>] else [])" by blast
  from arr have R: "paint_array (paints st') (''registered'', mo, a, b) =
         paint_array (paints st) (''registered'', mo, a, b) @
           (if (\<exists>x. vR m = Some (Fin x) \<and> x \<noteq> 0) \<and> ms \<le> nR m
            then [\<lparr>pid = i, pvalue = the (vR m)\<rparr>] else [])" by blast
  from arr have N: "paint_array (paints st') (''rent'', mo, a, b) =
         paint_array (paints st) (''rent'', mo, a, b) @
           (if (\<exists>x. vN m = Some (Fin x) \<and> x \<noteq> 0) \<and> ms \<le> nN m
            then [\<lparr>pid = i, pvalue = the (vN m)\<rparr>] else [])" by blast
  from arr have Y1: "(\<exists>x z. vR m = Some (Fin x) \<and> 0 < x \<and> vN m = Some (Fin z) \<and> z \<noteq> 0)
            \<and> ms \<le> nR m \<and> ms \<le> nN m \<longrightarrow>
         (\<exists>y. yield_expr (vN m) (vR m) = Inr y \<and>
                paint_array (paints st') (''yield'', mo, a, b) =
                  paint_array (paints st) (''yield'', mo, a, b) @ [\<lparr>pid = i, pvalue = y\<rparr>])"
    by blast
  from arr have Y2: "\<not> ((\<exists>x z. vR m = Some (Fin x) \<and> 0 < x \<and> vN m = Some (Fin z) \<and> z \<noteq> 0)
            \<and> ms \<le> nR m \<and> ms \<le> nN m) \<longrightarrow>
         paint_array (paints st') (''yield'', mo, a, b) =
                paint_array (paints st) (''yield'', mo, a, b)"
    by blast
  have Y: "(if (\<exists>x z. vR m = Some (Fin x) \<and> 0 < x \<and> vN m = Some (Fin z) \<and> z \<noteq> 0)
            \<and> ms \<le> nR m \<and> ms \<le> nN m
         then \<exists>y. yield_expr (vN m) (vR m) = Inr y \<and>
                paint_array (paints st') (''yield'', mo, a, b) =
                  paint_array (paints st) (''yield'', mo, a, b) @ [\<lparr>pid = i, pvalue = y\<rparr>]
         else paint_array (paints st') (''yield'', mo, a, b) =
                paint_array (paints st) (''yield'', mo, a, b))"
    using Y1 Y2 by (simp split: if_split)
  from i A R N Y show ?thesis by blast
qed

theorem paint_emitted_iff_witness:
  "read_metrics (ex_map (ex_asking ''5000000'' ''20'')) (ex_map (ex_registered ''1000000'' ''20''))
     (ex_map (ex_rent ''10000'' ''20''))
     (Some ''2025-07'', Some ''Residential'', Some ''2'', Some ''101'') =
   Inr \<lparr>nA = 20, nR = 20, nN = 20, vA = Some (Fin 5000000), vR = Some (Fin 1000000),
        vN = Some (Fin 10000)\<rparr>
   \<and> (\<exists>st'. process_key 20 (ex_map (ex_asking ''5000000'' ''20''))
          (ex_map (ex_registered ''1000000'' ''20'')) (ex_map (ex_rent ''10000'' ''20''))
          (Some ''2025-07'', Some ''Residential'', Some ''2'', Some ''101'') ex_out = Inr st'
        \<and> paint_array (paints st') (''asking'', Some ''2025-07'', Some ''Residential'', Some ''2'') =
            [\<lparr>pid = 101, pvalue = Fin 5000000\<rparr>]
        \<and> paint_array (paints st') (''registered'', Some ''2025-07'', Some ''Residential'', Some ''2'') =
            [\<lparr>pid = 101, pvalue = Fin 1000000\<rparr>]
        \<and> paint_array (paints st') (''rent'', Some ''2025-07'', Some ''Residential'', Some ''2'') =
            [\<lparr>pid = 101, pvalue = Fin 10000\<rparr>]
        \<and> paint_array (paints st') (''yield'', Some ''2025-07'', Some ''Residential'', Some ''2'') =
            [\<lparr>pid = 101, pvalue = Fin (1080863910568919 / 9007199254740992)\<rparr>])"
proof -
  note r = read_full [unfolded ex_key_def]
  note p = process_full [unfolded ex_key_def]
  from paint_emitted_iff [OF r p] r p show ?thesis
    by (simp add: paint_array_def)
qed

text \<open>
  The claim as stated fails on an asking price of 0 with 20 samples and \<open>min_sample = 20\<close>:
  the value is present (the summary records 0.0) and the count qualifies, but no point is
  emitted.
\<close>

theorem zero_asking_counterexample:
  "main 20 [ex_asking ''0'' ''20''] [] [] [ex_key] =
     Inr \<lparr>choropleth_files = [],
          summary_files =
            [([''summary'', ''101'', ''2025-07'', ''Residential'', ''2.json''],
              \<lparr>s_month = Some ''2025-07'', s_asset = Some ''Residential'', s_bhk = Some ''2'',
                 locality_id = 101, median_asking = Some (Fin 0),
                 median_registered = None, median_rent = None, yield = None,
                 count_asking = 20, count_registered = 0, count_rent = 0\<rparr>)]\<rparr>"
  by (simp add: agg_eval int_20 int_101 float_0)

subsection \<open>The value of the yield\<close>

text \<open>
  C4. Where a yield is computed, in the summary and in the choropleth point, it is the float
  expression \<open>12.0 * vN / vR\<close>: twelve times the median monthly rent, divided by the median
  registered price. For a registered price of 1000000 and a rent of 10000 it is the float
  that Python writes \<open>0.12\<close>.
\<close>

theorem yield_value_formula:
  assumes r: "read_metrics A R N (mo, a, b, l) = Inr m"
    and p: "process_key ms A R N (mo, a, b, l) st = Inr st'"
    and vr: "vR m = Some (Fin x)" and x: "0 < x"
    and vn: "vN m = Some (Fin z)" and z: "z \<noteq> 0"
  shows "\<exists>i path s y. int_of_cell l = Inr i
     \<and> py_truediv (py_mul (Fin 12) (Fin z)) (Fin x) = Inr y
     \<and> summaries st' = summaries st @ [(path, s)] \<and> yield s = Some y
     \<and> (ms \<le> nR m \<and> ms \<le> nN m \<longrightarrow>
          paint_array (paints st') (''yield'', mo, a, b) =
            paint_array (paints st) (''yield'', mo, a, b) @ [\<lparr>pid = i, pvalue = y\<rparr>])
     \<and> (x = 1000000 \<and> z = 10000 \<longrightarrow>
          y = Fin (1080863910568919 / 9007199254740992) \<and> py_float ''0.12'' = Some y)"
proof -
  from process_key_unfold [OF p] r
  obtain ps s i path where
    i: "int_of_cell l = Inr i" and
    e: "emit_paints ms (mo, a, b, l) m (paints st) = Inr ps" and
    s: "make_summary (mo, a, b, l) m = Inr s" and
    st': "st' = \<lparr>paints = ps, summaries = summaries st @ [(path, s)]\<rparr>"
    by auto
  have g: "yield_guard (vR m) (vN m)"
    using x z by (simp add: yield_guard_def vr vn)
  with make_summary_yield [OF s] obtain y where
    y: "yield_expr (vN m) (vR m) = Inr y" and ys: "yield s = Some y"
    by blast
  from y have d: "py_truediv (py_mul (Fin 12) (Fin z)) (Fin x) = Inr y"
    by (simp add: yield_expr_def vr vn)
  have arr: "ms \<le> nR m \<and> ms \<le> nN m \<longrightarrow>
          paint_array (paints st') (''yield'', mo, a, b) =
            paint_array (paints st) (''yield'', mo, a, b) @ [\<lparr>pid = i, pvalue = y\<rparr>]"
  proof
    assume c: "ms \<le> nR m \<and> ms \<le> nN m"
    with g emit_paints_arrays [OF e i] obtain y' where
      "yield_expr (vN m) (vR m) = Inr y'" and
      "paint_array ps (''yield'', mo, a, b) =
         paint_array (paints st) (''yield'', mo, a, b) @ [\<lparr>pid = i, pvalue = y'\<rparr>]"
      by blast
    with y st' show "paint_array (paints st') (''yield'', mo, a, b) =
            paint_array (paints st) (''yield'', mo, a, b) @ [\<lparr>pid = i, pvalue = y\<rparr>]"
      by simp
  qed
  have ex: "x = 1000000 \<and> z = 10000 \<longrightarrow>
          y = Fin (1080863910568919 / 9007199254740992) \<and> py_float ''0.12'' = Some y"
  proof
    assume "x = 1000000 \<and> z = 10000"
    with y have "y = Fin (1080863910568919 / 9007199254740992)"
      by (simp add: vr vn yield_example)
    then show "y = Fin (1080863910568919 / 9007199254740992) \<and> py_float ''0.12'' = Some y"
      by (simp add: float_0_12)
  qed
  from i d ys arr ex st' show ?thesis by auto
qed

theorem yield_value_formula_witness:
  "read_metrics (ex_map (ex_asking ''5000000'' ''20'')) (ex_map (ex_registered ''1000000'' ''20''))
     (ex_map (ex_rent ''10000'' ''20''))
     (Some ''2025-07'', Some ''Residential'', Some ''2'', Some ''101'') =
   Inr \<lparr>nA = 20, nR = 20, nN = 20, vA = Some (Fin 5000000), vR = Some (Fin 1000000),
        vN = Some (Fin 10000)\<rparr>
   \<and> (0::real) < 1000000 \<and> (10000::real) \<noteq> 0 \<and> (20::int) \<le> 20
   \<and> (\<exists>st'. process_key 20 (ex_map (ex_asking ''5000000'' ''20''))
          (ex_map (ex_registered ''1000000'' ''20'')) (ex_map (ex_rent ''10000'' ''20''))
          (Some ''2025-07'', Some ''Residential'', Some ''2'', Some ''101'') ex_out = Inr st'
        \<and> paint_array (paints st') (''yield'', Some ''2025-07'', Some ''Residential'', Some ''2'') =
            [\<lparr>pid = 101, pvalue = Fin (1080863910568919 / 9007199254740992)\<rparr>]
        \<and> map (\<lambda>e. yield (snd e)) (summaries st') = [py_float ''0.12''])"
proof -
  note r = read_full [unfolded ex_key_def]
  note p = process_full [unfolded ex_key_def]
  have vr: "vR \<lparr>nA = 20, nR = 20, nN = 20, vA = Some (Fin 5000000), vR = Some (Fin 1000000),
        vN = Some (Fin 10000)\<rparr> = Some (Fin 1000000)" by simp
  have vn: "vN \<lparr>nA = 20, nR = 20, nN = 20, vA = Some (Fin 5000000), vR = Some (Fin 1000000),
        vN = Some (Fin 10000)\<rparr> = Some (Fin 10000)" by simp
  have x: "(0::real) < 1000000" and z: "(10000::real) \<noteq> 0" by simp_all
  from yield_value_formula [OF r p vr x vn z] r p show ?thesis
    by (simp add: paint_array_def float_0_12)
qed

subsection \<open>Keys with partial data\<close>

text \<open>
  C5, as amended. The loop visits each key of the union of the three dictionaries once, and a
  run that completes has written one summary for each of them. For a key that only the rent
  file has, the summary has \<open>median_asking\<close>, \<open>median_registered\<close> and \<open>yield\<close> null, no
  point is emitted for asking, registered or yield, and a rent point is emitted exactly when
  the rent value is present and not 0.0 and its sample count is at least \<open>min_sample\<close>
  (the claim says: exactly when the sample count qualifies).
\<close>

theorem rent_only_key:
  assumes A: "index_rows ask Map.empty = Inr A"
    and R: "index_rows reg Map.empty = Inr R"
    and N: "index_rows rent Map.empty = Inr N"
    and ord: "iteration_order A R N ks"
    and run: "main ms ask reg rent ks = Inr fs"
  shows "length (summary_files fs) = card (dom A \<union> dom R \<union> dom N)
     \<and> (\<forall>mo a b l. (mo, a, b, l) \<in> dom A \<union> dom R \<union> dom N \<longrightarrow>
          (\<exists>m s p. read_metrics A R N (mo, a, b, l) = Inr m
             \<and> make_summary (mo, a, b, l) m = Inr s
             \<and> summary_path (mo, a, b, l) = Inr p
             \<and> (p, s) \<in> set (summary_files fs)
             \<and> (A (mo, a, b, l) = None \<and> R (mo, a, b, l) = None \<longrightarrow>
                  median_asking s = None \<and> median_registered s = None \<and> yield s = None
                  \<and> (\<forall>st st'. process_key ms A R N (mo, a, b, l) st = Inr st' \<longrightarrow>
                        paint_array (paints st') (''asking'', mo, a, b) =
                          paint_array (paints st) (''asking'', mo, a, b)
                        \<and> paint_array (paints st') (''registered'', mo, a, b) =
                          paint_array (paints st) (''registered'', mo, a, b)
                        \<and> paint_array (paints st') (''yield'', mo, a, b) =
                          paint_array (paints st) (''yield'', mo, a, b)
                        \<and> paint_array (paints st') (''rent'', mo, a, b) =
                          paint_array (paints st) (''rent'', mo, a, b) @
                            (if (\<exists>z. vN m = Some (Fin z) \<and> z \<noteq> 0) \<and> ms \<le> nN m
                             then [\<lparr>pid = locality_id s, pvalue = the (vN m)\<rparr>] else [])))))"
proof -
  let ?P = "\<lambda>k e. \<exists>m. read_metrics A R N k = Inr m \<and> make_summary k m = Inr (snd e)
                      \<and> summary_path k = Inr (fst e)"
  from main_unfold [OF run A R N] obtain st where
    st: "process_keys ms A R N ks \<lparr>paints = [], summaries = []\<rparr> = Inr st" and
    sf: "summary_files fs = summaries st"
    by blast
  from process_keys_summaries [OF st] have all: "list_all2 ?P ks (summary_files fs)"
    by (simp add: sf)
  from ord have d: "distinct ks" and keys: "set ks = dom A \<union> dom R \<union> dom N"
    by (simp_all add: iteration_order_def)
  from all have len: "length (summary_files fs) = length ks"
    by (simp add: list_all2_lengthD)
  have card: "length (summary_files fs) = card (dom A \<union> dom R \<union> dom N)"
    using len d keys by (simp add: distinct_card [symmetric])
  have each: "\<exists>m s p. read_metrics A R N (mo, a, b, l) = Inr m
             \<and> make_summary (mo, a, b, l) m = Inr s
             \<and> summary_path (mo, a, b, l) = Inr p
             \<and> (p, s) \<in> set (summary_files fs)
             \<and> (A (mo, a, b, l) = None \<and> R (mo, a, b, l) = None \<longrightarrow>
                  median_asking s = None \<and> median_registered s = None \<and> yield s = None
                  \<and> (\<forall>st st'. process_key ms A R N (mo, a, b, l) st = Inr st' \<longrightarrow>
                        paint_array (paints st') (''asking'', mo, a, b) =
                          paint_array (paints st) (''asking'', mo, a, b)
                        \<and> paint_array (paints st') (''registered'', mo, a, b) =
                          paint_array (paints st) (''registered'', mo, a, b)
                        \<and> paint_array (paints st') (''yield'', mo, a, b) =
                          paint_array (paints st) (''yield'', mo, a, b)
                        \<and> paint_array (paints st') (''rent'', mo, a, b) =
                          paint_array (paints st) (''rent'', mo, a, b) @
                            (if (\<exists>z. vN m = Some (Fin z) \<and> z \<noteq> 0) \<and> ms \<le> nN m
                             then [\<lparr>pid = locality_id s, pvalue = the (vN m)\<rparr>] else [])))"
    if k: "(mo, a, b, l) \<in> dom A \<union> dom R \<union> dom N" for mo a b l
  proof -
    from k have "(mo, a, b, l) \<in> set ks" unfolding keys .
    then obtain j where j: "j < length ks" and kj: "ks ! j = (mo, a, b, l)"
      unfolding in_set_conv_nth by blast
    from all j have "?P (ks ! j) (summary_files fs ! j)"
      by (simp add: list_all2_conv_all_nth)
    then obtain m where
      m: "read_metrics A R N (mo, a, b, l) = Inr m" and
      s: "make_summary (mo, a, b, l) m = Inr (snd (summary_files fs ! j))" and
      pth: "summary_path (mo, a, b, l) = Inr (fst (summary_files fs ! j))"
      unfolding kj by blast
    let ?s = "snd (summary_files fs ! j)" and ?p = "fst (summary_files fs ! j)"
    have mem: "(?p, ?s) \<in> set (summary_files fs)"
      using j len by simp
    from s obtain i where i: "int_of_cell l = Inr i"
      by (auto simp: make_summary_def thn_eq_Inr)
    note f = make_summary_fields [OF s i]
    have absent: "median_asking ?s = None \<and> median_registered ?s = None \<and> yield ?s = None
        \<and> (\<forall>st st'. process_key ms A R N (mo, a, b, l) st = Inr st' \<longrightarrow>
                        paint_array (paints st') (''asking'', mo, a, b) =
                          paint_array (paints st) (''asking'', mo, a, b)
                        \<and> paint_array (paints st') (''registered'', mo, a, b) =
                          paint_array (paints st) (''registered'', mo, a, b)
                        \<and> paint_array (paints st') (''yield'', mo, a, b) =
                          paint_array (paints st) (''yield'', mo, a, b)
                        \<and> paint_array (paints st') (''rent'', mo, a, b) =
                          paint_array (paints st) (''rent'', mo, a, b) @
                            (if (\<exists>z. vN m = Some (Fin z) \<and> z \<noteq> 0) \<and> ms \<le> nN m
                             then [\<lparr>pid = locality_id ?s, pvalue = the (vN m)\<rparr>] else []))"
      if an: "A (mo, a, b, l) = None" and rn: "R (mo, a, b, l) = None"
    proof -
      from read_metrics_absent [OF m an rn] have ab: "vA m = None" "vR m = None" by simp_all
      from f ab have med: "median_asking ?s = None" "median_registered ?s = None" by simp_all
      from make_summary_yield [OF s] ab have y: "yield ?s = None" by (simp add: guards_None)
      from f have li: "locality_id ?s = i" by simp
      have pass: "paint_array (paints st') (''asking'', mo, a, b) =
                          paint_array (paints st) (''asking'', mo, a, b)
                        \<and> paint_array (paints st') (''registered'', mo, a, b) =
                          paint_array (paints st) (''registered'', mo, a, b)
                        \<and> paint_array (paints st') (''yield'', mo, a, b) =
                          paint_array (paints st) (''yield'', mo, a, b)
                        \<and> paint_array (paints st') (''rent'', mo, a, b) =
                          paint_array (paints st) (''rent'', mo, a, b) @
                            (if (\<exists>z. vN m = Some (Fin z) \<and> z \<noteq> 0) \<and> ms \<le> nN m
                             then [\<lparr>pid = locality_id ?s, pvalue = the (vN m)\<rparr>] else [])"
        if p: "process_key ms A R N (mo, a, b, l) st = Inr st'" for st st'
        using rent_only_pass [OF m an rn p] i unfolding li by auto
      from med y pass show ?thesis by blast
    qed
    show ?thesis
      by (rule exI [of _ m], rule exI [of _ ?s], rule exI [of _ ?p])
        (intro conjI impI m s pth mem; elim conjE; rule absent [THEN conjunct1]
          absent [THEN conjunct2, THEN conjunct1]
          absent [THEN conjunct2, THEN conjunct2, THEN conjunct1]
          absent [THEN conjunct2, THEN conjunct2, THEN conjunct2]; assumption)
  qed
  show ?thesis
    by (intro conjI allI impI card each)
qed

theorem rent_only_key_witness:
  "index_rows [] Map.empty = Inr Map.empty
   \<and> index_rows [ex_rent ''10000'' ''20''] Map.empty = Inr (ex_map (ex_rent ''10000'' ''20''))
   \<and> iteration_order Map.empty Map.empty (ex_map (ex_rent ''10000'' ''20'')) [ex_key]
   \<and> ex_key \<in> dom Map.empty \<union> dom Map.empty \<union> dom (ex_map (ex_rent ''10000'' ''20''))
   \<and> (\<exists>fs. main 20 [] [] [ex_rent ''10000'' ''20''] [ex_key] = Inr fs
         \<and> length (summary_files fs) = 1
         \<and> (\<exists>m s p. read_metrics Map.empty Map.empty (ex_map (ex_rent ''10000'' ''20'')) ex_key = Inr m
               \<and> (p, s) \<in> set (summary_files fs)
               \<and> median_asking s = None \<and> median_registered s = None \<and> yield s = None
               \<and> (\<exists>st'. process_key 20 Map.empty Map.empty (ex_map (ex_rent ''10000'' ''20''))
                           ex_key ex_out = Inr st'
                    \<and> paint_array (paints st')
                         (''asking'', Some ''2025-07'', Some ''Residential'', Some ''2'') = []
                    \<and> paint_array (paints st')
                         (''rent'', Some ''2025-07'', Some ''Residential'', Some ''2'') =
                         [\<lparr>pid = locality_id s, pvalue = the (vN m)\<rparr>])))"
proof -
  let ?N = "ex_map (ex_rent ''10000'' ''20'')"
  have E: "index_rows [] Map.empty = Inr (Map.empty :: key \<rightharpoonup> row)" by simp
  note N = index_rent_only [of "''10000''" "''20''"]
  note ord = order_rent_only [of "ex_rent ''10000'' ''20''"]
  note run = run_rent_only
  have k: "(Some ''2025-07'', Some ''Residential'', Some ''2'', Some ''101'')
      \<in> dom Map.empty \<union> dom Map.empty \<union> dom ?N"
    by (simp add: ex_map_def ex_key_def)
  have an: "(Map.empty :: key \<rightharpoonup> row)
      (Some ''2025-07'', Some ''Residential'', Some ''2'', Some ''101'') = None" by simp
  note inst = rent_only_key [OF E E N ord run]
  from inst have len: "length (summary_files
      \<lparr>choropleth_files =
          [([''choropleth'', ''rent'', ''2025-07'', ''Residential'', ''2.json''],
            [\<lparr>pid = 101, pvalue = Fin 10000\<rparr>])],
        summary_files =
          [([''summary'', ''101'', ''2025-07'', ''Residential'', ''2.json''],
            \<lparr>s_month = Some ''2025-07'', s_asset = Some ''Residential'', s_bhk = Some ''2'',
               locality_id = 101, median_asking = None,
               median_registered = None, median_rent = Some (Fin 10000),
               yield = None,
               count_asking = 0, count_registered = 0, count_rent = 20\<rparr>)]\<rparr>) =
      card (dom (Map.empty :: key \<rightharpoonup> row) \<union> dom (Map.empty :: key \<rightharpoonup> row) \<union> dom ?N)"
    by (rule conjunct1)
  from inst [THEN conjunct2, rule_format, OF k] obtain m s p where
    m: "read_metrics Map.empty Map.empty ?N
          (Some ''2025-07'', Some ''Residential'', Some ''2'', Some ''101'') = Inr m" and
    mem: "(p, s) \<in> set [([''summary'', ''101'', ''2025-07'', ''Residential'', ''2.json''],
            \<lparr>s_month = Some ''2025-07'', s_asset = Some ''Residential'', s_bhk = Some ''2'',
               locality_id = 101, median_asking = None,
               median_registered = None, median_rent = Some (Fin 10000),
               yield = None,
               count_asking = 0, count_registered = 0, count_rent = 20\<rparr>)]" and
    rest: "median_asking s = None \<and> median_registered s = None \<and> yield s = None
       \<and> (\<forall>st st'. process_key 20 Map.empty Map.empty ?N
                (Some ''2025-07'', Some ''Residential'', Some ''2'', Some ''101'') st = Inr st' \<longrightarrow>
              paint_array (paints st') (''asking'', Some ''2025-07'', Some ''Residential'', Some ''2'') =
                paint_array (paints st) (''asking'', Some ''2025-07'', Some ''Residential'', Some ''2'')
              \<and> paint_array (paints st') (''registered'', Some ''2025-07'', Some ''Residential'', Some ''2'') =
                paint_array (paints st) (''registered'', Some ''2025-07'', Some ''Residential'', Some ''2'')
              \<and> paint_array (paints st') (''yield'', Some ''2025-07'', Some ''Residential'', Some ''2'') =
                paint_array (paints st) (''yield'', Some ''2025-07'', Some ''Residential'', Some ''2'')
              \<and> paint_array (paints st') (''rent'', Some ''2025-07'', Some ''Residential'', Some ''2'') =
                paint_array (paints st) (''rent'', Some ''2025-07'', Some ''Residential'', Some ''2'') @
                  (if (\<exists>z. vN m = Some (Fin z) \<and> z \<noteq> 0) \<and> 20 \<le> nN m
                   then [\<lparr>pid = locality_id s, pvalue = the (vN m)\<rparr>] else []))"
    using an by auto
  from m read_rent_only have meq: "m = \<lparr>nA = 0, nR = 0, nN = 20, vA = None, vR = None,
      vN = Some (Fin 10000)\<rparr>"
    by (simp add: ex_key_def)
  from rest process_rent_only [unfolded ex_key_def] have
    pass: "paint_array (paints \<lparr>paints =
          [((''rent'', Some ''2025-07'', Some ''Residential'', Some ''2''),
            [\<lparr>pid = 101, pvalue = Fin 10000\<rparr>])],
        summaries =
          [([''summary'', ''101'', ''2025-07'', ''Residential'', ''2.json''],
            \<lparr>s_month = Some ''2025-07'', s_asset = Some ''Residential'', s_bhk = Some ''2'',
               locality_id = 101, median_asking = None,
               median_registered = None, median_rent = Some (Fin 10000),
               yield = None,
               count_asking = 0, count_registered = 0, count_rent = 20\<rparr>)]\<rparr>)
           (''rent'', Some ''2025-07'', Some ''Residential'', Some ''2'') =
         paint_array (paints ex_out) (''rent'', Some ''2025-07'', Some ''Residential'', Some ''2'') @
                  (if (\<exists>z. vN m = Some (Fin z) \<and> z \<noteq> 0) \<and> 20 \<le> nN m
                   then [\<lparr>pid = locality_id s, pvalue = the (vN m)\<rparr>] else [])"
    by blast
  from pass have rent: "[\<lparr>pid = 101, pvalue = Fin 10000\<rparr>] =
      [\<lparr>pid = locality_id s, pvalue = the (vN m)\<rparr>]"
    by (simp add: meq ex_out_def paint_array_def)
  show ?thesis
    using E N ord run k m mem rest rent process_rent_only
    by (simp add: ex_key_def paint_array_def)
qed

text \<open>
  The claim as stated fails on a key that only the rent file has, with an empty rent value
  and 50 samples, for \<open>min_sample = 20\<close>: the sample count qualifies and no rent point is
  emitted.
\<close>

theorem rent_only_counterexample:
  "main 20 [] [] [ex_rent [] ''50''] [ex_key] =
     Inr \<lparr>choropleth_files = [],
          summary_files =
            [([''summary'', ''101'', ''2025-07'', ''Residential'', ''2.json''],
              \<lparr>s_month = Some ''2025-07'', s_asset = Some ''Residential'', s_bhk = Some ''2'',
                 locality_id = 101, median_asking = None,
                 median_registered = None, median_rent = None, yield = None,
                 count_asking = 0, count_registered = 0, count_rent = 50\<rparr>)]\<rparr>"
  by (simp add: agg_eval int_50 int_101 float_empty)

subsection \<open>Values that parse to 0.0\<close>

text \<open>
  C10. A metric value that parses to 0.0 is never emitted as a choropleth point for that
  metric, whatever its sample count is; a rent of 0.0 (and a registered price of 0.0)
  disables the yield in the paints and in the summary; and the summary still records the
  0.0 in its median field.
\<close>

theorem zero_value_not_painted:
  assumes r: "read_metrics A R N (mo, a, b, l) = Inr m"
    and p: "process_key ms A R N (mo, a, b, l) st = Inr st'"
  shows "\<exists>path s. summaries st' = summaries st @ [(path, s)]
     \<and> (vA m = Some (Fin 0) \<longrightarrow>
          paint_array (paints st') (''asking'', mo, a, b) =
            paint_array (paints st) (''asking'', mo, a, b)
          \<and> median_asking s = Some (Fin 0))
     \<and> (vR m = Some (Fin 0) \<longrightarrow>
          paint_array (paints st') (''registered'', mo, a, b) =
            paint_array (paints st) (''registered'', mo, a, b)
          \<and> paint_array (paints st') (''yield'', mo, a, b) =
            paint_array (paints st) (''yield'', mo, a, b)
          \<and> yield s = None \<and> median_registered s = Some (Fin 0))
     \<and> (vN m = Some (Fin 0) \<longrightarrow>
          paint_array (paints st') (''rent'', mo, a, b) =
            paint_array (paints st) (''rent'', mo, a, b)
          \<and> paint_array (paints st') (''yield'', mo, a, b) =
            paint_array (paints st) (''yield'', mo, a, b)
          \<and> yield s = None \<and> median_rent s = Some (Fin 0))"
proof -
  from process_key_unfold [OF p] r
  obtain ps s i path where
    i: "int_of_cell l = Inr i" and
    e: "emit_paints ms (mo, a, b, l) m (paints st) = Inr ps" and
    s: "make_summary (mo, a, b, l) m = Inr s" and
    st': "st' = \<lparr>paints = ps, summaries = summaries st @ [(path, s)]\<rparr>"
    by auto
  have ps: "paints st' = ps" using st' by simp
  note arr = emit_paints_arrays [OF e i, folded ps]
  note f = make_summary_fields [OF s i]
  note y = make_summary_yield [OF s]
  have A: "vA m = Some (Fin 0) \<longrightarrow>
          paint_array (paints st') (''asking'', mo, a, b) =
            paint_array (paints st) (''asking'', mo, a, b)
          \<and> median_asking s = Some (Fin 0)"
    using arr f by (simp add: zero_guards)
  have R: "vR m = Some (Fin 0) \<longrightarrow>
          paint_array (paints st') (''registered'', mo, a, b) =
            paint_array (paints st) (''registered'', mo, a, b)
          \<and> paint_array (paints st') (''yield'', mo, a, b) =
            paint_array (paints st) (''yield'', mo, a, b)
          \<and> yield s = None \<and> median_registered s = Some (Fin 0)"
    using arr f y by (simp add: zero_guards)
  have N: "vN m = Some (Fin 0) \<longrightarrow>
          paint_array (paints st') (''rent'', mo, a, b) =
            paint_array (paints st) (''rent'', mo, a, b)
          \<and> paint_array (paints st') (''yield'', mo, a, b) =
            paint_array (paints st) (''yield'', mo, a, b)
          \<and> yield s = None \<and> median_rent s = Some (Fin 0)"
    using arr f y by (simp add: zero_guards)
  from A R N st' show ?thesis by simp
qed

theorem zero_value_not_painted_witness:
  "read_metrics (ex_map (ex_asking ''0'' ''20'')) (ex_map (ex_registered ''0'' ''20''))
     (ex_map (ex_rent ''0'' ''20''))
     (Some ''2025-07'', Some ''Residential'', Some ''2'', Some ''101'') =
   Inr \<lparr>nA = 20, nR = 20, nN = 20, vA = Some (Fin 0), vR = Some (Fin 0), vN = Some (Fin 0)\<rparr>
   \<and> (\<exists>st'. process_key 20 (ex_map (ex_asking ''0'' ''20'')) (ex_map (ex_registered ''0'' ''20''))
          (ex_map (ex_rent ''0'' ''20''))
          (Some ''2025-07'', Some ''Residential'', Some ''2'', Some ''101'') ex_out = Inr st'
        \<and> paints st' = []
        \<and> map (\<lambda>e. (median_asking (snd e), median_registered (snd e), median_rent (snd e),
                     yield (snd e))) (summaries st') =
            [(Some (Fin 0), Some (Fin 0), Some (Fin 0), None)])"
proof -
  note r = read_zero [unfolded ex_key_def]
  note p = process_zero [unfolded ex_key_def]
  from zero_value_not_painted [OF r p] r p show ?thesis
    by simp
qed

section \<open>Properties of the GeoValidator\<close>

subsection \<open>The body of the loop over the features\<close>

lemma check_feature_missing:
  "missing_props need (get_properties ft) = Inr ms \<Longrightarrow> ms \<noteq> [] \<Longrightarrow>
   check_feature fname need kp i ft st = Inr (st\<lparr>errors := errors st @ [MissingProps fname i ms]\<rparr>)"
  by (simp add: check_feature_def)

lemma check_feature_missing_Inr:
  "check_feature fname need kp i ft st = Inr st1 \<Longrightarrow>
   \<exists>ms. missing_props need (get_properties ft) = Inr ms"
  by (auto simp: check_feature_def Let_def thn_eq_Inr)

lemma range_step:
  "(case b of None \<Rightarrow> Inr s2
    | Some bb \<Rightarrow> if \<not> in_wgs84 bb then Inr (s2\<lparr>warnings := warnings s2 @ [w bb]\<rparr>) else Inr s2)
     = Inr st1 \<Longrightarrow> errors st1 = errors s2 \<and> ids st1 = ids s2"
  by (cases b) (auto split: if_splits)

lemma thn_elim: "thn m f = Inr y \<Longrightarrow> (\<And>x. m = Inr x \<Longrightarrow> f x = Inr y \<Longrightarrow> P) \<Longrightarrow> P"
  unfolding thn_eq_Inr by blast

lemma id_step:
  assumes "thn (bbox_of_value g) (\<lambda>b. case b of None \<Rightarrow> Inr s2
      | Some bb \<Rightarrow> if \<not> in_wgs84 bb then Inr (s2\<lparr>warnings := warnings s2 @ [w bb]\<rparr>) else Inr s2)
     = Inr st1"
  shows "errors st1 = errors s2 \<and> ids st1 = ids s2"
proof (rule thn_elim [OF assms])
  fix b
  assume "(case b of None \<Rightarrow> Inr s2
      | Some bb \<Rightarrow> if \<not> in_wgs84 bb then Inr (s2\<lparr>warnings := warnings s2 @ [w bb]\<rparr>) else Inr s2)
     = Inr st1"
  then show ?thesis by (rule range_step)
qed

lemma check_feature_complete:
  assumes c: "missing_props need (get_properties ft) = Inr []"
    and r: "check_feature fname need kp i ft st = Inr st1"
  shows "\<exists>v h. prop_item (get_properties ft) kp = Inr v \<and> hash_key v = Inr h
     \<and> ids st1 = (if h \<in> set (ids st) then ids st else ids st @ [h])
     \<and> errors st1 = errors st @ (if h \<in> set (ids st) then [DuplicateId fname kp v] else [])"
proof -
  from r c obtain v where v: "prop_item (get_properties ft) kp = Inr v"
    by (auto simp: check_feature_def Let_def thn_eq_Inr)
  from r c v obtain h where h: "hash_key v = Inr h"
    by (auto simp: check_feature_def Let_def thn_eq_Inr)
  define s1 where "s1 = (if h \<in> set (ids st)
                     then st\<lparr>errors := errors st @ [DuplicateId fname kp v]\<rparr>
                     else st)"
  define s2 where "s2 = s1\<lparr>ids := (if h \<in> set (ids s1) then ids s1 else ids s1 @ [h])\<rparr>"
  from r c v h have
    "thn (bbox_of_value (get_geometry ft)) (\<lambda>b. case b of
          None \<Rightarrow> Inr s2
        | Some bb \<Rightarrow> if \<not> in_wgs84 bb
            then Inr (s2\<lparr>warnings := warnings s2 @ [OutOfRange fname i bb]\<rparr>)
            else Inr s2) = Inr st1"
    unfolding check_feature_def Let_def s2_def s1_def by simp
  from id_step [OF this] have "errors st1 = errors s2" and "ids st1 = ids s2" by simp_all
  then have "ids st1 = (if h \<in> set (ids st) then ids st else ids st @ [h])"
    and "errors st1 = errors st @ (if h \<in> set (ids st) then [DuplicateId fname kp v] else [])"
    by (simp_all add: s2_def s1_def)
  with v h show ?thesis by blast
qed

lemma check_feature_key:
  assumes c: "missing_props need (get_properties ft) = Inr []"
    and r: "check_feature fname need kp i ft st = Inr st1"
  shows "\<exists>v h. thn (prop_item (get_properties ft) kp) hash_key = Inr h \<and> hash_key v = Inr h
     \<and> ids st1 = (if h \<in> set (ids st) then ids st else ids st @ [h])
     \<and> errors st1 = errors st @ (if h \<in> set (ids st) then [DuplicateId fname kp v] else [])"
proof -
  from check_feature_complete [OF c r] obtain v h where
    "prop_item (get_properties ft) kp = Inr v" and "hash_key v = Inr h"
    and "ids st1 = (if h \<in> set (ids st) then ids st else ids st @ [h])"
    and "errors st1 = errors st @ (if h \<in> set (ids st) then [DuplicateId fname kp v] else [])"
    by blast
  then show ?thesis by (intro exI [of _ v] exI [of _ h]) simp
qed

subsection \<open>The loop over the features\<close>

lemma check_feature_errors:
  assumes "check_feature fname need kp i ft st = Inr st1"
  shows "\<exists>es. errors st1 = errors st @ es"
proof -
  from check_feature_missing_Inr [OF assms] obtain ms where
    ms: "missing_props need (get_properties ft) = Inr ms" by blast
  show ?thesis
  proof (cases "ms = []")
    case True
    with ms have "missing_props need (get_properties ft) = Inr []" by simp
    from check_feature_complete [OF this assms] show ?thesis by auto
  next
    case False
    from check_feature_missing [OF ms False, of fname kp i st] assms show ?thesis by auto
  qed
qed

lemma check_features_errors:
  "check_features fname need kp i fts st = Inr st' \<Longrightarrow> \<exists>es. errors st' = errors st @ es"
proof (induction fts arbitrary: i st)
  case Nil
  then show ?case by simp
next
  case (Cons ft fts)
  from Cons.prems obtain st1 where
    s: "check_feature fname need kp i ft st = Inr st1" and
    r: "check_features fname need kp (Suc i) fts st1 = Inr st'"
    by (auto simp: thn_eq_Inr)
  from check_feature_errors [OF s] Cons.IH [OF r] show ?case by auto
qed

lemma check_features_missing_reported:
  assumes "check_features fname need kp i fts st = Inr st'"
    and "j < length fts"
    and "missing_props need (get_properties (fts ! j)) = Inr ms" and "ms \<noteq> []"
  shows "MissingProps fname (i + j) ms \<in> set (errors st')"
  using assms
proof (induction fts arbitrary: i j st)
  case Nil
  then show ?case by simp
next
  case (Cons ft fts)
  from Cons.prems(1) obtain st1 where
    s: "check_feature fname need kp i ft st = Inr st1" and
    r: "check_features fname need kp (Suc i) fts st1 = Inr st'"
    by (auto simp: thn_eq_Inr)
  show ?case
  proof (cases j)
    case 0
    with Cons.prems have m: "missing_props need (get_properties ft) = Inr ms" by simp
    from check_feature_missing [OF m Cons.prems(4), of fname kp i st] s
    have "MissingProps fname i ms \<in> set (errors st1)" by auto
    moreover from check_features_errors [OF r] obtain es where "errors st' = errors st1 @ es" ..
    ultimately show ?thesis using 0 by simp
  next
    case (Suc k)
    with Cons.prems have "k < length fts"
      and "missing_props need (get_properties (fts ! k)) = Inr ms" by simp_all
    from Cons.IH [OF r this Cons.prems(4)] Suc show ?thesis by simp
  qed
qed

lemma check_feature_any_state:
  assumes "check_feature fname need kp i ft st = Inr st1"
  shows "\<exists>sa1. check_feature fname need kp i' ft sa = Inr sa1"
proof -
  from check_feature_missing_Inr [OF assms] obtain ms where
    ms: "missing_props need (get_properties ft) = Inr ms" by blast
  show ?thesis
  proof (cases "ms = []")
    case False
    from check_feature_missing [OF ms False] show ?thesis by blast
  next
    case True
    with ms have c: "missing_props need (get_properties ft) = Inr []" by simp
    from check_feature_complete [OF c assms] obtain v h where
      v: "prop_item (get_properties ft) kp = Inr v" and h: "hash_key v = Inr h" by blast
    from assms c v h obtain b where b: "bbox_of_value (get_geometry ft) = Inr b"
      by (auto simp: check_feature_def Let_def thn_eq_Inr)
    show ?thesis
    proof (cases b)
      case None
      with c v h b show ?thesis by (simp add: check_feature_def Let_def)
    next
      case (Some bb)
      with c v h b show ?thesis by (cases "in_wgs84 bb") (simp_all add: check_feature_def Let_def)
    qed
  qed
qed

lemma check_features_complete_only:
  assumes "check_features fname need kp i fts st = Inr st'"
    and "ids sa = ids st"
    and "filter is_duplicate (errors sa) = filter is_duplicate (errors st)"
  shows "\<exists>sa'. check_features fname need kp i'
             (filter (\<lambda>ft. missing_props need (get_properties ft) = Inr []) fts) sa = Inr sa'
           \<and> ids sa' = ids st'
           \<and> filter is_duplicate (errors sa') = filter is_duplicate (errors st')"
  using assms
proof (induction fts arbitrary: i i' st sa)
  case Nil
  then show ?case by simp
next
  case (Cons ft fts)
  from Cons.prems(1) obtain st1 where
    s: "check_feature fname need kp i ft st = Inr st1" and
    r: "check_features fname need kp (Suc i) fts st1 = Inr st'"
    by (auto simp: thn_eq_Inr)
  from check_feature_missing_Inr [OF s] obtain ms where
    ms: "missing_props need (get_properties ft) = Inr ms" by blast
  show ?case
  proof (cases "ms = []")
    case False
    from check_feature_missing [OF ms False, of fname kp i st] s
    have "ids st1 = ids st" and "filter is_duplicate (errors st1) = filter is_duplicate (errors st)"
      by auto
    with Cons.prems have "ids sa = ids st1"
      and "filter is_duplicate (errors sa) = filter is_duplicate (errors st1)" by simp_all
    from Cons.IH [OF r this, of i'] ms False show ?thesis by simp
  next
    case True
    with ms have c: "missing_props need (get_properties ft) = Inr []" by simp
    from check_feature_any_state [OF s, of i' sa] obtain sa1 where
      t: "check_feature fname need kp i' ft sa = Inr sa1" ..
    from check_feature_complete [OF c s] check_feature_complete [OF c t] Cons.prems(2,3)
    have "ids sa1 = ids st1"
      and "filter is_duplicate (errors sa1) = filter is_duplicate (errors st1)"
      by auto
    from Cons.IH [OF r this, of "Suc i'"] c t show ?thesis by simp
  qed
qed

lemma check_features_ids:
  assumes "check_features fname need kp i fts st = Inr st'" and "distinct (ids st)"
  shows "distinct (ids st')
     \<and> set (ids st') = set (ids st) \<union>
          {h. \<exists>ft \<in> set fts. missing_props need (get_properties ft) = Inr []
                 \<and> thn (prop_item (get_properties ft) kp) hash_key = Inr h}
     \<and> length (filter is_duplicate (errors st')) + length (ids st')
         = length (filter is_duplicate (errors st)) + length (ids st)
           + length (filter (\<lambda>ft. missing_props need (get_properties ft) = Inr []) fts)"
  using assms
proof (induction fts arbitrary: i st)
  case Nil
  then show ?case by simp
next
  case (Cons ft fts)
  from Cons.prems(1) obtain st1 where
    s: "check_feature fname need kp i ft st = Inr st1" and
    r: "check_features fname need kp (Suc i) fts st1 = Inr st'"
    by (auto simp: thn_eq_Inr)
  from check_feature_missing_Inr [OF s] obtain ms where
    ms: "missing_props need (get_properties ft) = Inr ms" by blast
  show ?case
  proof (cases "ms = []")
    case False
    from check_feature_missing [OF ms False, of fname kp i st] s
    have e: "ids st1 = ids st" "filter is_duplicate (errors st1) = filter is_duplicate (errors st)"
      by auto
    with Cons.prems(2) have "distinct (ids st1)" by simp
    from Cons.IH [OF r this] e ms False show ?thesis by simp
  next
    case True
    with ms have c: "missing_props need (get_properties ft) = Inr []" by simp
    from check_feature_key [OF c s] obtain v h where
      k: "thn (prop_item (get_properties ft) kp) hash_key = Inr h" and
      i: "ids st1 = (if h \<in> set (ids st) then ids st else ids st @ [h])" and
      e: "errors st1 = errors st @ (if h \<in> set (ids st) then [DuplicateId fname kp v] else [])"
      by blast
    from i Cons.prems(2) have d: "distinct (ids st1)" by simp
    from i have s1: "set (ids st1) = insert h (set (ids st))" by auto
    from i e have l: "length (filter is_duplicate (errors st1)) + length (ids st1)
        = Suc (length (filter is_duplicate (errors st)) + length (ids st))" by simp
    from Cons.IH [OF r d] have
      A: "distinct (ids st')" and
      B: "set (ids st') = set (ids st1) \<union>
          {h. \<exists>ft \<in> set fts. missing_props need (get_properties ft) = Inr []
                 \<and> thn (prop_item (get_properties ft) kp) hash_key = Inr h}" and
      C: "length (filter is_duplicate (errors st')) + length (ids st')
         = length (filter is_duplicate (errors st1)) + length (ids st1)
           + length (filter (\<lambda>ft. missing_props need (get_properties ft) = Inr []) fts)"
      by simp_all
    from B s1 c k have "set (ids st') = set (ids st) \<union>
          {h. \<exists>ft \<in> set (ft # fts). missing_props need (get_properties ft) = Inr []
                 \<and> thn (prop_item (get_properties ft) kp) hash_key = Inr h}"
      by auto
    moreover from C l c have "length (filter is_duplicate (errors st')) + length (ids st')
         = length (filter is_duplicate (errors st)) + length (ids st)
           + length (filter (\<lambda>ft. missing_props need (get_properties ft) = Inr []) (ft # fts))"
      by simp
    ultimately show ?thesis using A by blast
  qed
qed

lemma check_features_per_id:
  assumes "check_features fname need kp i fts st = Inr st'"
  shows "length (filter (\<lambda>e. \<exists>f k v. e = DuplicateId f k v \<and> hash_key v = Inr h) (errors st'))
     = length (filter (\<lambda>e. \<exists>f k v. e = DuplicateId f k v \<and> hash_key v = Inr h) (errors st))
       + (if h \<in> set (ids st)
          then length (filter (\<lambda>ft. missing_props need (get_properties ft) = Inr []
                 \<and> thn (prop_item (get_properties ft) kp) hash_key = Inr h) fts)
          else length (filter (\<lambda>ft. missing_props need (get_properties ft) = Inr []
                 \<and> thn (prop_item (get_properties ft) kp) hash_key = Inr h) fts) - 1)"
  using assms
proof (induction fts arbitrary: i st)
  case Nil
  then show ?case by simp
next
  case (Cons ft fts)
  from Cons.prems(1) obtain st1 where
    s: "check_feature fname need kp i ft st = Inr st1" and
    r: "check_features fname need kp (Suc i) fts st1 = Inr st'"
    by (auto simp: thn_eq_Inr)
  from check_feature_missing_Inr [OF s] obtain ms where
    ms: "missing_props need (get_properties ft) = Inr ms" by blast
  show ?case
  proof (cases "ms = []")
    case False
    from check_feature_missing [OF ms False, of fname kp i st] s
    have e: "ids st1 = ids st" "errors st1 = errors st @ [MissingProps fname i ms]"
      by auto
    from Cons.IH [OF r] e ms False show ?thesis by simp
  next
    case True
    with ms have c: "missing_props need (get_properties ft) = Inr []" by simp
    from check_feature_key [OF c s] obtain v h0 where
      k: "thn (prop_item (get_properties ft) kp) hash_key = Inr h0" and
      v: "hash_key v = Inr h0" and
      i: "ids st1 = (if h0 \<in> set (ids st) then ids st else ids st @ [h0])" and
      e: "errors st1 = errors st @ (if h0 \<in> set (ids st) then [DuplicateId fname kp v] else [])"
      by blast
    show ?thesis
    proof (cases "h0 = h")
      case True
      with i have m: "h \<in> set (ids st1)" by simp
      from Cons.IH [OF r] m e v c k True show ?thesis by simp
    next
      case False
      with i have m: "h \<in> set (ids st1) \<longleftrightarrow> h \<in> set (ids st)" by auto
      from Cons.IH [OF r] m e v c k False show ?thesis by simp
    qed
  qed
qed

subsection \<open>Missing files\<close>

lemma load_layers_missing:
  "load_layers dir fs el = Inr el' \<Longrightarrow> fst el \<noteq> [] \<or> (\<exists>f \<in> set fs. dir f = None)
     \<Longrightarrow> fst el' \<noteq> []"
proof (induction fs arbitrary: el)
  case Nil
  then show ?case by simp
next
  case (Cons f fs)
  show ?case
  proof (cases "dir f")
    case None
    with Cons.prems(1) have "load_layers dir fs (fst el @ [MissingFile f], snd el) = Inr el'"
      by simp
    from Cons.IH [OF this] show ?thesis by simp
  next
    case (Some d)
    with Cons.prems(1) obtain feats where
      "load_layers dir fs (fst el, (snd el)(f \<mapsto> feats)) = Inr el'"
      by (auto simp: thn_eq_Inr)
    from Cons.IH [OF this] Cons.prems(2) Some show ?thesis by auto
  qed
qed

lemma missing_file_is_fatal:
  assumes "\<exists>f \<in> set (map fst REQUIRED). dir f = None"
  shows "exit_code (main_geo order dir) = 1 \<and> (\<forall>es ws. main_geo order dir \<noteq> Report es ws)"
proof (cases "load_layers dir (map fst REQUIRED) ([], Map.empty)")
  case (Inl e)
  then show ?thesis by (simp add: main_geo_def)
next
  case (Inr el)
  from load_layers_missing [OF Inr] assms have "fst el \<noteq> []" by blast
  with Inr show ?thesis by (cases el) (simp add: main_geo_def)
qed

subsection \<open>Runs on the sample layers\<close>

lemmas geo_eval = main_geo_def validate_def REQUIRED_def load_fc_def check_layer_def key_prop_of_def
  ends_with_def py_index_def check_feature_def get_properties_def missing_props_def prop_item_def
  hash_key_def get_geometry_def item_geometry_def item_properties_def bbox_of_value_def
  bbox_of_geom_def coords_of_def bbox_of_coords_def py_min_def py_max_def num_lt_def num_le_def
  in_wgs84_def layer_item_def check_locality_def centroid_of_geom_def point_in_bbox_def
  ex_feature_def ex_city_def ex_mm_def ex_mm_no_id_def ex_mm_no_city_def ex_loc_def ex_dir_def listed_order_def Let_def

lemma run_mm_layer:
  "check_features ''mumbai_micro_markets.geojson'' [''MicroMarketID'', ''CityID'', ''MicroMarketName'']
      ''MicroMarketID'' 0 [ex_mm_no_city 7, ex_mm 7] \<lparr>errors = [], warnings = [], ids = []\<rparr>
   = Inr \<lparr>errors = [MissingProps ''mumbai_micro_markets.geojson'' 0 [''CityID'']],
          warnings = [], ids = [JFloat (Fin 7)]\<rparr>"
  by (simp add: geo_eval)

lemma run_three_equal:
  "check_features ''mumbai_micro_markets.geojson'' [''MicroMarketID'', ''CityID'', ''MicroMarketName'']
      ''MicroMarketID'' 0 [ex_mm 7, ex_mm 7, ex_mm 7] \<lparr>errors = [], warnings = [], ids = []\<rparr>
   = Inr \<lparr>errors = [DuplicateId ''mumbai_micro_markets.geojson'' ''MicroMarketID'' (JInt 7),
                    DuplicateId ''mumbai_micro_markets.geojson'' ''MicroMarketID'' (JInt 7)],
          warnings = [], ids = [JFloat (Fin 7)]\<rparr>"
  by (simp add: geo_eval)

lemma three_equal_count:
  "length (filter (\<lambda>ft. missing_props [''MicroMarketID'', ''CityID'', ''MicroMarketName'']
                                     (get_properties ft) = Inr []
                 \<and> thn (prop_item (get_properties ft) ''MicroMarketID'') hash_key = Inr (JFloat (Fin 7)))
                 [ex_mm 7, ex_mm 7, ex_mm 7]) - 1 = 2"
  by (simp add: geo_eval)

section \<open>The claims about the GeoValidator\<close>

subsection \<open>Features with missing properties\<close>

text \<open>
  C7. In the loop over the features of a layer (lines 75 to 89), a feature that lacks a
  required property is recorded as a blocking error and skipped, and its identifier does
  not enter the set \<open>ids\<close>. For every run of the loop that returns: each feature with a
  non-empty list of missing properties has its error \<open>MissingProps\<close>, under its own index,
  among the errors at the end, and the loop body on such a feature does nothing but append
  that error; the set \<open>ids\<close> and the duplicate errors at the end are those of the loop run
  over the features that have all their properties, so that a feature with a missing
  property neither is reported as a duplicate nor makes a later feature one.
\<close>

theorem missing_props_feature_skipped:
  assumes "check_features fname need kp i fts st = Inr st'"
  shows "(\<forall>j ms. j < length fts \<and> missing_props need (get_properties (fts ! j)) = Inr ms \<and> ms \<noteq> []
            \<longrightarrow> MissingProps fname (i + j) ms \<in> set (errors st')
              \<and> check_feature fname need kp (i + j) (fts ! j)
                  = (\<lambda>s. Inr (s\<lparr>errors := errors s @ [MissingProps fname (i + j) ms]\<rparr>)))
       \<and> (\<exists>st''. check_features fname need kp i
                    (filter (\<lambda>ft. missing_props need (get_properties ft) = Inr []) fts) st = Inr st''
                \<and> ids st'' = ids st'
                \<and> filter is_duplicate (errors st'') = filter is_duplicate (errors st'))"
proof (intro conjI allI impI)
  fix j ms
  assume "j < length fts \<and> missing_props need (get_properties (fts ! j)) = Inr ms \<and> ms \<noteq> []"
  then have j: "j < length fts" and m: "missing_props need (get_properties (fts ! j)) = Inr ms"
    and n: "ms \<noteq> []" by simp_all
  from check_features_missing_reported [OF assms j m n]
  show "MissingProps fname (i + j) ms \<in> set (errors st')" .
  show "check_feature fname need kp (i + j) (fts ! j)
          = (\<lambda>s. Inr (s\<lparr>errors := errors s @ [MissingProps fname (i + j) ms]\<rparr>))"
    by (rule ext) (rule check_feature_missing [OF m n])
next
  from check_features_complete_only [OF assms refl refl]
  show "\<exists>st''. check_features fname need kp i
                    (filter (\<lambda>ft. missing_props need (get_properties ft) = Inr []) fts) st = Inr st''
                \<and> ids st'' = ids st'
                \<and> filter is_duplicate (errors st'') = filter is_duplicate (errors st')" .
qed

theorem missing_props_feature_skipped_witness:
  "check_features ''mumbai_micro_markets.geojson'' [''MicroMarketID'', ''CityID'', ''MicroMarketName'']
      ''MicroMarketID'' 0 [ex_mm_no_city 7, ex_mm 7] \<lparr>errors = [], warnings = [], ids = []\<rparr>
   = Inr \<lparr>errors = [MissingProps ''mumbai_micro_markets.geojson'' 0 [''CityID'']],
          warnings = [], ids = [JFloat (Fin 7)]\<rparr>
   \<and> (\<exists>st''. check_features ''mumbai_micro_markets.geojson''
                [''MicroMarketID'', ''CityID'', ''MicroMarketName''] ''MicroMarketID'' 0
                (filter (\<lambda>ft. missing_props [''MicroMarketID'', ''CityID'', ''MicroMarketName'']
                                 (get_properties ft) = Inr []) [ex_mm_no_city 7, ex_mm 7])
                \<lparr>errors = [], warnings = [], ids = []\<rparr> = Inr st''
          \<and> ids st'' = [JFloat (Fin 7)] \<and> filter is_duplicate (errors st'') = [])"
proof -
  note r = run_mm_layer
  from missing_props_feature_skipped [OF r] r show ?thesis by simp
qed

subsection \<open>Duplicate identifiers\<close>

text \<open>
  C8. One duplicate error is recorded for each occurrence of an identifier after its
  first. For every run of the loop over the features of a layer that starts with the empty
  set \<open>ids\<close> and returns, the errors \<open>es\<close> that the loop has appended are such that, for
  every identifier \<open>h\<close>, the number of duplicate errors for \<open>h\<close> is the number of
  features with all their properties and the identifier \<open>h\<close>, less one (and none when
  there is no such feature); the number of all duplicate errors is the number of features
  with all their properties less the number of distinct identifiers. Identifiers are
  compared as the set \<open>ids\<close> compares them. Three features with the identifier 7 give two
  duplicate errors.
\<close>

theorem one_error_per_repeated_id:
  assumes "check_features fname need kp i fts st = Inr st'" and "ids st = []"
  shows "\<exists>es. errors st' = errors st @ es
     \<and> (\<forall>h. length (filter (\<lambda>e. \<exists>f k v. e = DuplicateId f k v \<and> hash_key v = Inr h) es)
            = length (filter (\<lambda>ft. missing_props need (get_properties ft) = Inr []
                 \<and> thn (prop_item (get_properties ft) kp) hash_key = Inr h) fts) - 1)
     \<and> length (filter is_duplicate es)
         = length (filter (\<lambda>ft. missing_props need (get_properties ft) = Inr []) fts)
           - card {h. \<exists>ft \<in> set fts. missing_props need (get_properties ft) = Inr []
                 \<and> thn (prop_item (get_properties ft) kp) hash_key = Inr h}"
proof -
  from check_features_errors [OF assms(1)] obtain es where es: "errors st' = errors st @ es" ..
  from assms(2) have d: "distinct (ids st)" by simp
  from check_features_ids [OF assms(1) d] assms(2) have
    A: "distinct (ids st')" and
    B: "set (ids st') = {h. \<exists>ft \<in> set fts. missing_props need (get_properties ft) = Inr []
                 \<and> thn (prop_item (get_properties ft) kp) hash_key = Inr h}" and
    C: "length (filter is_duplicate (errors st')) + length (ids st')
         = length (filter is_duplicate (errors st))
           + length (filter (\<lambda>ft. missing_props need (get_properties ft) = Inr []) fts)"
    by simp_all
  from A have "card (set (ids st')) = length (ids st')" by (rule distinct_card)
  with B have "card {h. \<exists>ft \<in> set fts. missing_props need (get_properties ft) = Inr []
                 \<and> thn (prop_item (get_properties ft) kp) hash_key = Inr h} = length (ids st')"
    by simp
  with C es have total: "length (filter is_duplicate es)
         = length (filter (\<lambda>ft. missing_props need (get_properties ft) = Inr []) fts)
           - card {h. \<exists>ft \<in> set fts. missing_props need (get_properties ft) = Inr []
                 \<and> thn (prop_item (get_properties ft) kp) hash_key = Inr h}"
    by simp
  have "\<forall>h. length (filter (\<lambda>e. \<exists>f k v. e = DuplicateId f k v \<and> hash_key v = Inr h) es)
            = length (filter (\<lambda>ft. missing_props need (get_properties ft) = Inr []
                 \<and> thn (prop_item (get_properties ft) kp) hash_key = Inr h) fts) - 1"
  proof
    fix h
    from check_features_per_id [OF assms(1), of h] assms(2) es
    show "length (filter (\<lambda>e. \<exists>f k v. e = DuplicateId f k v \<and> hash_key v = Inr h) es)
            = length (filter (\<lambda>ft. missing_props need (get_properties ft) = Inr []
                 \<and> thn (prop_item (get_properties ft) kp) hash_key = Inr h) fts) - 1"
      by simp
  qed
  with es total show ?thesis by blast
qed

theorem one_error_per_repeated_id_witness:
  "check_features ''mumbai_micro_markets.geojson'' [''MicroMarketID'', ''CityID'', ''MicroMarketName'']
      ''MicroMarketID'' 0 [ex_mm 7, ex_mm 7, ex_mm 7] \<lparr>errors = [], warnings = [], ids = []\<rparr>
   = Inr \<lparr>errors = [DuplicateId ''mumbai_micro_markets.geojson'' ''MicroMarketID'' (JInt 7),
                    DuplicateId ''mumbai_micro_markets.geojson'' ''MicroMarketID'' (JInt 7)],
          warnings = [], ids = [JFloat (Fin 7)]\<rparr>
   \<and> ids \<lparr>errors = [], warnings = [], ids = []\<rparr> = []
   \<and> (\<exists>es. es = [DuplicateId ''mumbai_micro_markets.geojson'' ''MicroMarketID'' (JInt 7),
                  DuplicateId ''mumbai_micro_markets.geojson'' ''MicroMarketID'' (JInt 7)]
        \<and> length (filter (\<lambda>e. \<exists>f k v. e = DuplicateId f k v \<and> hash_key v = Inr (JFloat (Fin 7))) es)
            = 2)"
proof -
  note r = run_three_equal
  have i: "ids \<lparr>errors = [], warnings = [], ids = []\<rparr> = []" by simp
  from one_error_per_repeated_id [OF r i] obtain es where
    "errors \<lparr>errors = [DuplicateId ''mumbai_micro_markets.geojson'' ''MicroMarketID'' (JInt 7),
                    DuplicateId ''mumbai_micro_markets.geojson'' ''MicroMarketID'' (JInt 7)],
          warnings = [], ids = [JFloat (Fin 7)]\<rparr>
       = errors \<lparr>errors = [], warnings = [], ids = []\<rparr> @ es"
    and "\<forall>h. length (filter (\<lambda>e. \<exists>f k v. e = DuplicateId f k v \<and> hash_key v = Inr h) es)
            = length (filter (\<lambda>ft. missing_props [''MicroMarketID'', ''CityID'', ''MicroMarketName'']
                                     (get_properties ft) = Inr []
                 \<and> thn (prop_item (get_properties ft) ''MicroMarketID'') hash_key = Inr h)
                 [ex_mm 7, ex_mm 7, ex_mm 7]) - 1"
    by blast
  then have e: "es = [DuplicateId ''mumbai_micro_markets.geojson'' ''MicroMarketID'' (JInt 7),
                  DuplicateId ''mumbai_micro_markets.geojson'' ''MicroMarketID'' (JInt 7)]"
    and l: "length (filter (\<lambda>e. \<exists>f k v. e = DuplicateId f k v \<and> hash_key v = Inr (JFloat (Fin 7))) es)
            = length (filter (\<lambda>ft. missing_props [''MicroMarketID'', ''CityID'', ''MicroMarketName'']
                                     (get_properties ft) = Inr []
                 \<and> thn (prop_item (get_properties ft) ''MicroMarketID'') hash_key = Inr (JFloat (Fin 7)))
                 [ex_mm 7, ex_mm 7, ex_mm 7]) - 1"
    by simp_all
  from l have
    "length (filter (\<lambda>e. \<exists>f k v. e = DuplicateId f k v \<and> hash_key v = Inr (JFloat (Fin 7))) es) = 2"
    by (simp only: three_equal_count)
  with e r i show ?thesis by blast
qed

subsection \<open>The exit code\<close>

text \<open>
  C9. The claim is that a missing file ends the run with a non-zero exit code before any
  check, and that with all three files present a malformed feature is reported and never
  aborts the run, which exits with 0. The first half holds (\<open>missing_file_is_fatal\<close>).
  The second half fails: on three files that are all present, with one micro-market
  whose properties lack \<open>MicroMarketID\<close>, the loop over the layer records the missing
  property and skips the feature, and then the comprehension for \<open>mm_bboxes\<close> (line 94)
  evaluates \<open>ft["properties"]["MicroMarketID"]\<close> on the same feature, which raises
  \<open>KeyError\<close>: the run aborts before the report is printed and exits with 1.
\<close>

theorem missing_id_aborts_validation:
  "check_layer listed_order ''mumbai_micro_markets.geojson''
      [''MicroMarketID'', ''CityID'', ''MicroMarketName''] [ex_mm_no_id] ([], [])
     = Inr ([MissingProps ''mumbai_micro_markets.geojson'' 0 [''MicroMarketID'']], [])
   \<and> main_geo listed_order (ex_dir [ex_city] [ex_mm_no_id] []) = Crash KeyError
   \<and> exit_code (main_geo listed_order (ex_dir [ex_city] [ex_mm_no_id] [])) = 1"
  by (simp add: geo_eval)

section \<open>Properties of the DimensionBuilder\<close>

lemma str_nat_num:
  "str_nat (numeral k) =
     (if (numeral k :: nat) < 10 then [''0123456789'' ! numeral k]
      else str_nat (numeral k div 10) @ [''0123456789'' ! (numeral k mod 10)])"
  by (rule str_nat.simps)

lemma str_nat_0: "str_nat 0 = ''0''" by (simp add: str_nat.simps)

lemma str_nat_1: "str_nat (Suc 0) = ''1''" by (simp add: str_nat.simps)

lemmas dims_eval = main_dims_def read_csv_any_def ENCODINGS_def attempt_def replace_nbsp_def
  build_dims_def py_sort_def code_key_lt_def name_key_lt_def coded_key_def norm_mm_def norm_loc_def
  city_or_0_def no_cast_def str_cast_def int_cast_def float_cast_def str_int_def str_nat_num
  str_nat_0 str_nat_1
  pystr_def strip_def is_space_def py_int_def signed_int_def unsigned_int_def digitpart_def
  is_digit_def digits_val_def plain_reader_def plain_row_def ex_lib_def ex_disk_def ex_dims_def
  Let_def

text \<open>The run on the sample masters; the script itself writes the same value for them.\<close>

lemma run_ex_disk: "main_dims ex_lib ex_disk = Inr (ex_disk\<lparr>dims_json := Some ex_dims\<rparr>)"
  by (simp add: dims_eval)

text \<open>A run reads the five masters and nothing else, and leaves them as they are.\<close>

lemma main_dims_build:
  "main_dims lib d =
     thn (build_dims (read_csv_any lib (masters d ''dim_bhk.csv''))
            (read_csv_any lib (masters d ''dim_asset_type.csv''))
            (read_csv_any lib (masters d ''dim_city.csv''))
            (read_csv_any lib (masters d ''dim_micro_market.csv''))
            (read_csv_any lib (masters d ''dim_locality.csv'')))
       (\<lambda>v. Inr (d\<lparr>dims_json := Some v\<rparr>))"
  by (simp add: main_dims_def Let_def)

lemma main_dims_again:
  "main_dims lib d = Inr d' \<Longrightarrow> main_dims lib d' = Inr d'"
  unfolding main_dims_build thn_eq_Inr by auto

lemma main_dims_same_masters:
  assumes "\<forall>f \<in> set MASTERS. masters (d2 :: disk) f = masters (d :: disk) f"
  shows "map_sum id dims_json (main_dims lib d2) = map_sum id dims_json (main_dims lib d)"
proof -
  from assms have m: "masters d2 ''dim_bhk.csv'' = masters d ''dim_bhk.csv''"
    "masters d2 ''dim_asset_type.csv'' = masters d ''dim_asset_type.csv''"
    "masters d2 ''dim_city.csv'' = masters d ''dim_city.csv''"
    "masters d2 ''dim_micro_market.csv'' = masters d ''dim_micro_market.csv''"
    "masters d2 ''dim_locality.csv'' = masters d ''dim_locality.csv''"
    by (simp_all add: MASTERS_def)
  show ?thesis
    unfolding main_dims_build m
    by (cases "build_dims (read_csv_any lib (masters d ''dim_bhk.csv''))
            (read_csv_any lib (masters d ''dim_asset_type.csv''))
            (read_csv_any lib (masters d ''dim_city.csv''))
            (read_csv_any lib (masters d ''dim_micro_market.csv''))
            (read_csv_any lib (masters d ''dim_locality.csv''))") simp_all
qed

section \<open>The claim about the DimensionBuilder\<close>

text \<open>
  C6. Running the DimensionBuilder twice on unchanged masters gives the same \<open>dims.json\<close>.
  The run is a function of the content of the five master files (and of the library's
  decoding and CSV reading, which are functions of the bytes): it reads no clock and
  draws no random number, iterates over lists and over no set, and sorts each list with
  a stable sort on a key taken from the entries. For every library and every state of
  the files, a second run directly after the first ends as the first did, with the same
  exception or with the same files; and two states of the files that agree on the five
  masters give the same exception or the same \<open>dims.json\<close>, whatever \<open>dims.json\<close> held
  before.
\<close>

theorem rebuild_gives_same_dims:
  "thn (main_dims lib d) (main_dims lib) = main_dims lib d
   \<and> (\<forall>d2. (\<forall>f \<in> set MASTERS. masters d2 f = masters d f) \<longrightarrow>
          map_sum id dims_json (main_dims lib d2) = map_sum id dims_json (main_dims lib d))"
proof (intro conjI allI impI)
  show "thn (main_dims lib d) (main_dims lib) = main_dims lib d"
  proof (cases "main_dims lib d")
    case (Inl e)
    then show ?thesis by simp
  next
    case (Inr d')
    from main_dims_again [OF this] Inr show ?thesis by simp
  qed
next
  fix d2 :: disk
  assume "\<forall>f \<in> set MASTERS. masters d2 f = masters d f"
  then show "map_sum id dims_json (main_dims lib d2) = map_sum id dims_json (main_dims lib d)"
    by (rule main_dims_same_masters)
qed

theorem rebuild_gives_same_dims_witness:
  "map (masters (ex_disk\<lparr>dims_json := Some ex_dims\<rparr>)) MASTERS = map (masters ex_disk) MASTERS
   \<and> thn (main_dims ex_lib ex_disk) (main_dims ex_lib) = Inr (ex_disk\<lparr>dims_json := Some ex_dims\<rparr>)
   \<and> map_sum id dims_json (main_dims ex_lib (ex_disk\<lparr>dims_json := Some ex_dims\<rparr>))
       = Inr (Some ex_dims)"
proof -
  note t = rebuild_gives_same_dims [of ex_lib ex_disk]
  have m: "map (masters (ex_disk\<lparr>dims_json := Some ex_dims\<rparr>)) MASTERS
             = map (masters ex_disk) MASTERS"
    by simp
  then have h: "\<forall>f \<in> set MASTERS. masters (ex_disk\<lparr>dims_json := Some ex_dims\<rparr>) f = masters ex_disk f"
    by simp
  from t have a: "thn (main_dims ex_lib ex_disk) (main_dims ex_lib) = main_dims ex_lib ex_disk"
    by (rule conjunct1)
  from t h have b: "map_sum id dims_json (main_dims ex_lib (ex_disk\<lparr>dims_json := Some ex_dims\<rparr>))
       = map_sum id dims_json (main_dims ex_lib ex_disk)"
    by blast
  from a have a': "thn (main_dims ex_lib ex_disk) (main_dims ex_lib)
       = Inr (ex_disk\<lparr>dims_json := Some ex_dims\<rparr>)"
    by (simp only: run_ex_disk)
  from b have b': "map_sum id dims_json (main_dims ex_lib (ex_disk\<lparr>dims_json := Some ex_dims\<rparr>))
       = Inr (Some ex_dims)"
    by (simp add: run_ex_disk)
  from m a' b' show ?thesis by blast
qed

end
